theory Spec2Isabelle
  imports Complex_Main "HOL-Library.Sublist"
begin

section \<open>Impact analysis: severity score (spec/impact.py)\<close>

text \<open>
  \<^verbatim>\<open>BreakingChange\<close> and \<^verbatim>\<open>ImpactSeverity\<close> of spec/models.py. The enum members
  carry the prefix \<open>IMPACT_\<close>, since \<^verbatim>\<open>IssueSeverity\<close> and \<^verbatim>\<open>Complexity\<close> have members of
  the same names.
\<close>

record BreakingChange =
  change_type :: string
  location :: string
  description :: string
  affected_consumers :: "string list"
  migration_required :: bool
  suggested_fix :: "string option"

datatype ImpactSeverity = IMPACT_NONE | IMPACT_LOW | IMPACT_MEDIUM | IMPACT_HIGH | IMPACT_CRITICAL

text \<open>The order of the severity levels, \<^verbatim>\<open>none < low < medium < high < critical\<close>.\<close>

fun severity_rank :: "ImpactSeverity \<Rightarrow> nat" where
  "severity_rank IMPACT_NONE = 0"
| "severity_rank IMPACT_LOW = 1"
| "severity_rank IMPACT_MEDIUM = 2"
| "severity_rank IMPACT_HIGH = 3"
| "severity_rank IMPACT_CRITICAL = 4"

text \<open>
  \<^verbatim>\<open>ImpactAnalyzer._assess_rollback_complexity\<close>: the result is one of the strings
  \<^verbatim>\<open>"high"\<close>, \<^verbatim>\<open>"medium"\<close>, \<^verbatim>\<open>"low"\<close>.
\<close>

definition assess_rollback_complexity :: "string list \<Rightarrow> BreakingChange list \<Rightarrow> string" where
  "assess_rollback_complexity affected_files breaking_changes =
     (if list_ex migration_required breaking_changes then ''high''
      else if length affected_files > 20 then ''high''
      else if length affected_files > 10 then ''medium''
      else if length breaking_changes > 3 then ''medium''
      else ''low'')"

text \<open>
  The numeric score of \<^verbatim>\<open>ImpactAnalyzer._calculate_severity\<close>, one summand per
  \<^verbatim>\<open>if/elif\<close> chain of the source, in the source's order.
\<close>

definition files_score :: "string list \<Rightarrow> nat" where
  "files_score affected_files =
     (if length affected_files > 30 then 4
      else if length affected_files > 15 then 3
      else if length affected_files > 5 then 2
      else if length affected_files > 0 then 1
      else 0)"

definition services_score :: "string list \<Rightarrow> nat" where
  "services_score affected_services =
     (if length affected_services > 3 then 3
      else if length affected_services > 1 then 2
      else if length affected_services = 1 then 1
      else 0)"

definition breaking_score :: "BreakingChange list \<Rightarrow> nat" where
  "breaking_score breaking_changes =
     (if list_ex migration_required breaking_changes then 4
      else if length breaking_changes > 5 then 3
      else if length breaking_changes > 2 then 2
      else if length breaking_changes > 0 then 1
      else 0)"

definition test_gaps_score :: "string list \<Rightarrow> nat" where
  "test_gaps_score test_gaps =
     (if length test_gaps > 5 then 2
      else if length test_gaps > 2 then 1
      else 0)"

definition rollback_score :: "string \<Rightarrow> nat" where
  "rollback_score rollback_complexity =
     (if rollback_complexity = ''high'' then 2
      else if rollback_complexity = ''medium'' then 1
      else 0)"

definition severity_score ::
  "string list \<Rightarrow> string list \<Rightarrow> BreakingChange list \<Rightarrow> string list \<Rightarrow> string \<Rightarrow> nat" where
  "severity_score affected_files affected_services breaking_changes test_gaps rollback_complexity =
     files_score affected_files + services_score affected_services
     + breaking_score breaking_changes + test_gaps_score test_gaps
     + rollback_score rollback_complexity"

definition score_to_severity :: "nat \<Rightarrow> ImpactSeverity" where
  "score_to_severity score =
     (if score \<ge> 10 then IMPACT_CRITICAL
      else if score \<ge> 7 then IMPACT_HIGH
      else if score \<ge> 4 then IMPACT_MEDIUM
      else if score \<ge> 1 then IMPACT_LOW
      else IMPACT_NONE)"

text \<open>\<^verbatim>\<open>_calculate_severity\<close> returns the level and the constant confidence 0.7.\<close>

definition calculate_severity ::
  "string list \<Rightarrow> string list \<Rightarrow> BreakingChange list \<Rightarrow> string list \<Rightarrow> string
     \<Rightarrow> ImpactSeverity \<times> rat" where
  "calculate_severity affected_files affected_services breaking_changes test_gaps rollback_complexity =
     (score_to_severity
        (severity_score affected_files affected_services breaking_changes test_gaps rollback_complexity),
      7 / 10)"

text \<open>
  Steps 6 and 7 of \<^verbatim>\<open>ImpactAnalyzer.analyze\<close>: the rollback complexity is computed from
  the affected files and the breaking changes, and fed to the severity computation.
\<close>

definition analyze_score ::
  "string list \<Rightarrow> string list \<Rightarrow> BreakingChange list \<Rightarrow> string list \<Rightarrow> nat" where
  "analyze_score affected_files affected_services breaking_changes test_gaps =
     severity_score affected_files affected_services breaking_changes test_gaps
       (assess_rollback_complexity affected_files breaking_changes)"

definition analyze_severity ::
  "string list \<Rightarrow> string list \<Rightarrow> BreakingChange list \<Rightarrow> string list \<Rightarrow> ImpactSeverity" where
  "analyze_severity affected_files affected_services breaking_changes test_gaps =
     fst (calculate_severity affected_files affected_services breaking_changes test_gaps
       (assess_rollback_complexity affected_files breaking_changes))"

subsection \<open>Monotonicity of the score\<close>

lemma files_score_mono: "files_score fs \<le> files_score (f # fs)"
  by (simp add: files_score_def)

lemma breaking_score_mono: "breaking_score bcs \<le> breaking_score (bc # bcs)"
  by (simp add: breaking_score_def)

lemma rollback_score_files_mono:
  "rollback_score (assess_rollback_complexity fs bcs)
     \<le> rollback_score (assess_rollback_complexity (f # fs) bcs)"
  by (simp add: rollback_score_def assess_rollback_complexity_def)

lemma rollback_score_breaking_mono:
  "rollback_score (assess_rollback_complexity fs bcs)
     \<le> rollback_score (assess_rollback_complexity fs (bc # bcs))"
  by (simp add: rollback_score_def assess_rollback_complexity_def)

lemma score_to_severity_mono:
  "a \<le> b \<Longrightarrow> severity_rank (score_to_severity a) \<le> severity_rank (score_to_severity b)"
  by (simp add: score_to_severity_def)

lemma analyze_score_files_mono:
  "analyze_score fs svcs bcs gaps \<le> analyze_score (f # fs) svcs bcs gaps"
  unfolding analyze_score_def severity_score_def
  using files_score_mono [of fs f] rollback_score_files_mono [of fs bcs f]
  by linarith

lemma analyze_score_breaking_mono:
  "analyze_score fs svcs bcs gaps \<le> analyze_score fs svcs (bc # bcs) gaps"
  unfolding analyze_score_def severity_score_def
  using breaking_score_mono [of bcs bc] rollback_score_breaking_mono [of fs bcs bc]
  by linarith

lemma severity_score_files_mono:
  "severity_score fs svcs bcs gaps rb \<le> severity_score (f # fs) svcs bcs gaps rb"
  unfolding severity_score_def using files_score_mono [of fs f] by linarith

lemma severity_score_breaking_mono:
  "severity_score fs svcs bcs gaps rb \<le> severity_score fs svcs (bc # bcs) gaps rb"
  unfolding severity_score_def using breaking_score_mono [of bcs bc] by linarith

text \<open>
  Claim C6. Adding one affected file, or one breaking change, to the input of the impact
  analyzer never decreases the numeric severity score, whether the rollback complexity is
  recomputed from the enlarged input (as \<^verbatim>\<open>analyze\<close> does) or held fixed (as an argument of
  \<^verbatim>\<open>_calculate_severity\<close>); hence the severity level, under the mapping
  \<^verbatim>\<open>>= 10 critical, >= 7 high, >= 4 medium, >= 1 low, else none\<close>, never gets lower.
\<close>

theorem impact_severity_monotone:
  "analyze_score fs svcs bcs gaps \<le> analyze_score (f # fs) svcs bcs gaps
   \<and> analyze_score fs svcs bcs gaps \<le> analyze_score fs svcs (bc # bcs) gaps
   \<and> severity_score fs svcs bcs gaps rb \<le> severity_score (f # fs) svcs bcs gaps rb
   \<and> severity_score fs svcs bcs gaps rb \<le> severity_score fs svcs (bc # bcs) gaps rb
   \<and> severity_rank (analyze_severity fs svcs bcs gaps)
        \<le> severity_rank (analyze_severity (f # fs) svcs bcs gaps)
   \<and> severity_rank (analyze_severity fs svcs bcs gaps)
        \<le> severity_rank (analyze_severity fs svcs (bc # bcs) gaps)
   \<and> score_to_severity n =
        (if n \<ge> 10 then IMPACT_CRITICAL else if n \<ge> 7 then IMPACT_HIGH
         else if n \<ge> 4 then IMPACT_MEDIUM else if n \<ge> 1 then IMPACT_LOW else IMPACT_NONE)"
proof -
  have lvl_f: "severity_rank (analyze_severity fs svcs bcs gaps)
        \<le> severity_rank (analyze_severity (f # fs) svcs bcs gaps)"
    using score_to_severity_mono [OF analyze_score_files_mono [of fs svcs bcs gaps f]]
    by (simp add: analyze_severity_def calculate_severity_def analyze_score_def)
  have lvl_b: "severity_rank (analyze_severity fs svcs bcs gaps)
        \<le> severity_rank (analyze_severity fs svcs (bc # bcs) gaps)"
    using score_to_severity_mono [OF analyze_score_breaking_mono [of fs svcs bcs gaps bc]]
    by (simp add: analyze_severity_def calculate_severity_def analyze_score_def)
  show ?thesis
    using analyze_score_files_mono [of fs svcs bcs gaps f]
      analyze_score_breaking_mono [of fs svcs bcs gaps bc]
      severity_score_files_mono [of fs svcs bcs gaps rb f]
      severity_score_breaking_mono [of fs svcs bcs gaps rb bc]
      lvl_f lvl_b
    by (simp add: score_to_severity_def)
qed


section \<open>JSON values and dictionaries\<close>

text \<open>
  The values \<^verbatim>\<open>json.load\<close> produces and \<^verbatim>\<open>json.dump\<close> consumes. A Python \<^verbatim>\<open>dict\<close> keeps
  its keys in insertion order, so an object is an association list with distinct keys.
\<close>

datatype json =
  JNull
| JBool bool
| JNum int
| JStr string
| JArr "json list"
| JObj "(string \<times> json) list"

text \<open>\<^verbatim>\<open>d.get(k)\<close>, \<^verbatim>\<open>d.get(k, default)\<close> and \<^verbatim>\<open>d[k] = v\<close> on an insertion-ordered dict.\<close>

fun dict_get :: "'k \<Rightarrow> ('k \<times> 'v) list \<Rightarrow> 'v option" where
  "dict_get k [] = None"
| "dict_get k ((k', v) # d) = (if k = k' then Some v else dict_get k d)"

definition dict_get_default :: "'k \<Rightarrow> 'v \<Rightarrow> ('k \<times> 'v) list \<Rightarrow> 'v" where
  "dict_get_default k dflt d = (case dict_get k d of None \<Rightarrow> dflt | Some v \<Rightarrow> v)"

fun dict_set :: "'k \<Rightarrow> 'v \<Rightarrow> ('k \<times> 'v) list \<Rightarrow> ('k \<times> 'v) list" where
  "dict_set k v [] = [(k, v)]"
| "dict_set k v ((k', v') # d) = (if k = k' then (k, v) # d else (k', v') # dict_set k v d)"

text \<open>Truth value of a JSON value, as \<^verbatim>\<open>if x:\<close> tests it.\<close>

definition truthy :: "json \<Rightarrow> bool" where
  "truthy v =
     (case v of
        JNull \<Rightarrow> False
      | JBool b \<Rightarrow> b
      | JNum n \<Rightarrow> n \<noteq> 0
      | JStr s \<Rightarrow> s \<noteq> []
      | JArr xs \<Rightarrow> xs \<noteq> []
      | JObj d \<Rightarrow> d \<noteq> [])"

section \<open>Python strings\<close>

text \<open>
  \<^verbatim>\<open>str(n)\<close> for an integer, as the f-strings of the source format it: decimal digits,
  with a minus sign for a negative number.
\<close>

definition digit_char :: "nat \<Rightarrow> char" where
  "digit_char d = char_of (48 + d)"

function str_of_nat :: "nat \<Rightarrow> string" where
  "str_of_nat n = (if n < 10 then [digit_char n] else str_of_nat (n div 10) @ [digit_char (n mod 10)])"
  by pat_completeness auto
termination
  by (relation "measure id") auto

declare str_of_nat.simps [simp del]

definition str_of_int :: "int \<Rightarrow> string" where
  "str_of_int i = (if i < 0 then CHR ''-'' # str_of_nat (nat (- i)) else str_of_nat (nat i))"

section \<open>QA criteria (qa/criteria.py)\<close>

datatype QAStatus = PENDING | APPROVED | REJECTED | FIXES_APPLIED | QA_ERROR

datatype IssueSeverity = SEV_CRITICAL | SEV_HIGH | SEV_MEDIUM | SEV_LOW | SEV_INFO

fun QAStatus_value :: "QAStatus \<Rightarrow> string" where
  "QAStatus_value PENDING = ''pending''"
| "QAStatus_value APPROVED = ''approved''"
| "QAStatus_value REJECTED = ''rejected''"
| "QAStatus_value FIXES_APPLIED = ''fixes_applied''"
| "QAStatus_value QA_ERROR = ''error''"

fun IssueSeverity_value :: "IssueSeverity \<Rightarrow> string" where
  "IssueSeverity_value SEV_CRITICAL = ''critical''"
| "IssueSeverity_value SEV_HIGH = ''high''"
| "IssueSeverity_value SEV_MEDIUM = ''medium''"
| "IssueSeverity_value SEV_LOW = ''low''"
| "IssueSeverity_value SEV_INFO = ''info''"

record QAIssue =
  title :: string
  severity :: IssueSeverity
  issue_description :: string
  issue_location :: "string option"
  fix_required :: "string option"
  category :: string

definition json_of_opt :: "string option \<Rightarrow> json" where
  "json_of_opt x = (case x of None \<Rightarrow> JNull | Some s \<Rightarrow> JStr s)"

definition QAIssue_to_dict :: "QAIssue \<Rightarrow> (string \<times> json) list" where
  "QAIssue_to_dict i =
     [(''title'', JStr (title i)),
      (''severity'', JStr (IssueSeverity_value (severity i))),
      (''description'', JStr (issue_description i)),
      (''location'', json_of_opt (issue_location i)),
      (''fix_required'', json_of_opt (fix_required i)),
      (''category'', JStr (category i))]"

record TestResults =
  unit_passed :: int
  unit_total :: int
  integration_passed :: int
  integration_total :: int
  e2e_passed :: int
  e2e_total :: int

text \<open>The default \<^verbatim>\<open>TestResults()\<close>: every counter is 0.\<close>

definition TestResults_default :: TestResults where
  "TestResults_default =
     \<lparr>unit_passed = 0, unit_total = 0, integration_passed = 0, integration_total = 0,
      e2e_passed = 0, e2e_total = 0\<rparr>"

definition all_passed :: "TestResults \<Rightarrow> bool" where
  "all_passed r =
     (let unit_ok = (unit_passed r = unit_total r);
          integration_ok = (integration_passed r = integration_total r);
          e2e_ok = (e2e_passed r = e2e_total r)
      in unit_ok \<and> integration_ok \<and> e2e_ok)"

text \<open>
  \<^verbatim>\<open>QASignoff\<close>. The timestamp (\<^verbatim>\<open>datetime.now()\<close> at construction) is left out: no
  operation modelled here reads it.
\<close>

record QASignoff =
  status :: QAStatus
  qa_session :: int
  issues_found :: "QAIssue list"
  test_results :: "TestResults option"
  verified_by :: string
  ready_for_revalidation :: bool

text \<open>
  \<^verbatim>\<open>QASignoff.to_dict\<close>, without the timestamp: the keys \<^verbatim>\<open>issues_found\<close>,
  \<^verbatim>\<open>tests_passed\<close> and \<^verbatim>\<open>ready_for_qa_revalidation\<close> are written only when the field is
  truthy.
\<close>

definition TestResults_to_dict :: "TestResults \<Rightarrow> (string \<times> json) list" where
  "TestResults_to_dict r =
     [(''unit'', JStr (str_of_int (unit_passed r) @ ''/'' @ str_of_int (unit_total r))),
      (''integration'',
         JStr (str_of_int (integration_passed r) @ ''/'' @ str_of_int (integration_total r))),
      (''e2e'', JStr (str_of_int (e2e_passed r) @ ''/'' @ str_of_int (e2e_total r)))]"

definition QASignoff_to_dict :: "QASignoff \<Rightarrow> (string \<times> json) list" where
  "QASignoff_to_dict s =
     [(''status'', JStr (QAStatus_value (status s))),
      (''qa_session'', JNum (qa_session s)),
      (''verified_by'', JStr (verified_by s))]
     @ (if issues_found s \<noteq> []
        then [(''issues_found'', JArr (map (JObj \<circ> QAIssue_to_dict) (issues_found s)))] else [])
     @ (case test_results s of
          Some r \<Rightarrow> [(''tests_passed'', JObj (TestResults_to_dict r))]
        | None \<Rightarrow> [])
     @ (if ready_for_revalidation s then [(''ready_for_qa_revalidation'', JBool True)] else [])"

section \<open>QA loop: recurring issues and escalation (qa/loop.py)\<close>

definition MAX_QA_ITERATIONS :: nat where "MAX_QA_ITERATIONS = 50"
definition MAX_CONSECUTIVE_ERRORS :: nat where "MAX_CONSECUTIVE_ERRORS = 3"
definition RECURRING_ISSUE_THRESHOLD :: nat where "RECURRING_ISSUE_THRESHOLD = 3"

datatype QAPhase = REVIEW | TEST | FIX | COMPLETE | FAILED

text \<open>
  \<^verbatim>\<open>IterationRecord\<close>: \<^verbatim>\<open>issues_found\<close> is a list of dicts, each the \<^verbatim>\<open>to_dict\<close> of an issue
  or the record of an exception. Duration and timestamp are left out.
\<close>

record IterationRecord =
  iteration :: nat
  phase :: QAPhase
  record_status :: string
  record_issues_found :: "(string \<times> json) list list"

record QALoopState =
  current_iteration :: nat
  current_phase :: QAPhase
  consecutive_errors :: nat
  history :: "IterationRecord list"
  is_approved :: bool
  total_issues_found :: nat
  total_fixes_applied :: nat
  escalated_to_human :: bool

definition add_iteration :: "IterationRecord \<Rightarrow> QALoopState \<Rightarrow> QALoopState" where
  "add_iteration r st =
     st\<lparr>history := history st @ [r],
        total_issues_found := total_issues_found st + length (record_issues_found r)\<rparr>"

text \<open>
  The counting loops of \<^verbatim>\<open>get_recurring_issues\<close>: for each record, for each issue,
  \<^verbatim>\<open>issue_counts[title] = issue_counts.get(title, 0) + 1\<close> with
  \<^verbatim>\<open>title = issue.get("title", "Unknown")\<close>.
\<close>

definition issue_title :: "(string \<times> json) list \<Rightarrow> json" where
  "issue_title issue = dict_get_default ''title'' (JStr ''Unknown'') issue"

fun count_issues :: "(json \<times> nat) list \<Rightarrow> (string \<times> json) list list \<Rightarrow> (json \<times> nat) list" where
  "count_issues issue_counts [] = issue_counts"
| "count_issues issue_counts (issue # rest) =
     count_issues
       (dict_set (issue_title issue) (dict_get_default (issue_title issue) 0 issue_counts + 1)
          issue_counts)
       rest"

fun count_records :: "(json \<times> nat) list \<Rightarrow> IterationRecord list \<Rightarrow> (json \<times> nat) list" where
  "count_records issue_counts [] = issue_counts"
| "count_records issue_counts (r # rest) =
     count_records (count_issues issue_counts (record_issues_found r)) rest"

text \<open>
  \<^verbatim>\<open>QALoopState.get_recurring_issues\<close>: each entry \<open>(t, c)\<close> stands for the dict
  \<^verbatim>\<open>{"title": t, "occurrences": c}\<close>. \<^verbatim>\<open>sorted(..., reverse=True)\<close> is stable, as is
  \<^const>\<open>sort_key\<close> on the negated count.
\<close>

definition get_recurring_issues :: "QALoopState \<Rightarrow> (json \<times> nat) list" where
  "get_recurring_issues st =
     (let issue_counts = count_records [] (history st);
          recurring = filter (\<lambda>(t, c). c \<ge> RECURRING_ISSUE_THRESHOLD) issue_counts
      in sort_key (\<lambda>(t, c). - int c) recurring)"

text \<open>\<^verbatim>\<open>QALoop._should_escalate\<close>, with \<^verbatim>\<open>config.max_consecutive_errors\<close> as an argument.\<close>

definition should_escalate :: "nat \<Rightarrow> QALoopState \<Rightarrow> bool" where
  "should_escalate max_consecutive_errors st =
     (if get_recurring_issues st \<noteq> [] then True
      else if consecutive_errors st \<ge> max_consecutive_errors then True
      else False)"

text \<open>
  Two ways of measuring how often a title occurs in a history: the number of issue
  entries that carry it, over all records, and the number of records that have at least
  one such entry.
\<close>

definition all_titles :: "IterationRecord list \<Rightarrow> json list" where
  "all_titles h = concat (map (\<lambda>r. map issue_title (record_issues_found r)) h)"

definition occurrences :: "json \<Rightarrow> IterationRecord list \<Rightarrow> nat" where
  "occurrences t h = count_list (all_titles h) t"

definition records_with :: "json \<Rightarrow> IterationRecord list \<Rightarrow> nat" where
  "records_with t h =
     length (filter (\<lambda>r. list_ex (\<lambda>i. issue_title i = t) (record_issues_found r)) h)"


subsection \<open>What the counting loop computes\<close>

lemma dict_get_dict_set:
  "dict_get k' (dict_set k v d) = (if k' = k then Some v else dict_get k' d)"
  by (induction d) auto

lemma dict_get_default_dict_set:
  "dict_get_default k' dflt (dict_set k v d) = (if k' = k then v else dict_get_default k' dflt d)"
  by (simp add: dict_get_default_def dict_get_dict_set)

lemma keys_dict_set: "set (map fst (dict_set k v d)) = insert k (set (map fst d))"
proof (induction d)
  case Nil
  then show ?case by simp
next
  case (Cons p d)
  then show ?case by (cases p) (simp add: insert_commute)
qed

lemma distinct_dict_set: "distinct (map fst d) \<Longrightarrow> distinct (map fst (dict_set k v d))"
  by (induction d) (auto simp: keys_dict_set simp del: set_map)

lemma dict_get_None_iff: "dict_get k d = None \<longleftrightarrow> k \<notin> set (map fst d)"
  by (induction d) (auto split: if_splits)

lemma dict_get_Some_iff:
  "distinct (map fst d) \<Longrightarrow> dict_get k d = Some v \<longleftrightarrow> (k, v) \<in> set d"
  by (induction d) (auto simp: rev_image_eqI split: if_splits)

lemma count_issues_get:
  "dict_get_default t 0 (count_issues d is) =
     dict_get_default t 0 d + count_list (map issue_title is) t"
  by (induction "is" arbitrary: d) (auto simp: dict_get_default_dict_set)

lemma count_issues_keys:
  "set (map fst (count_issues d is)) = set (map fst d) \<union> set (map issue_title is)"
  by (induction "is" arbitrary: d) (auto simp: keys_dict_set simp del: set_map)

lemma count_issues_distinct:
  "distinct (map fst d) \<Longrightarrow> distinct (map fst (count_issues d is))"
  by (induction "is" arbitrary: d) (auto simp: distinct_dict_set)

lemma count_records_get:
  "dict_get_default t 0 (count_records d h) = dict_get_default t 0 d + occurrences t h"
  by (induction h arbitrary: d) (auto simp: count_issues_get occurrences_def all_titles_def)

lemma count_records_keys:
  "set (map fst (count_records d h)) = set (map fst d) \<union> set (all_titles h)"
  by (induction h arbitrary: d) (auto simp: count_issues_keys all_titles_def simp del: set_map)

lemma count_records_distinct:
  "distinct (map fst d) \<Longrightarrow> distinct (map fst (count_records d h))"
  by (induction h arbitrary: d) (auto simp: count_issues_distinct)

lemma count_records_entry:
  "(t, c) \<in> set (count_records [] h) \<longleftrightarrow> t \<in> set (all_titles h) \<and> c = occurrences t h"
proof -
  have d: "distinct (map fst (count_records [] h))"
    by (rule count_records_distinct) simp
  have g: "dict_get_default t 0 (count_records [] h) = occurrences t h"
    using count_records_get [of t "[]" h] by (simp add: dict_get_default_def)
  have k: "dict_get t (count_records [] h) = None \<longleftrightarrow> t \<notin> set (all_titles h)"
    by (simp add: dict_get_None_iff count_records_keys del: set_map)
  show ?thesis
  proof (cases "dict_get t (count_records [] h)")
    case None
    with k have "t \<notin> set (all_titles h)" by simp
    moreover from None have "(t, c) \<notin> set (count_records [] h)"
      using dict_get_Some_iff [OF d, of t c] by simp
    ultimately show ?thesis by simp
  next
    case (Some v)
    with k have "t \<in> set (all_titles h)" by simp
    moreover from Some g have "v = occurrences t h" by (simp add: dict_get_default_def)
    ultimately show ?thesis using dict_get_Some_iff [OF d, of t c] Some by auto
  qed
qed

lemma occurrences_pos_iff: "0 < occurrences t h \<longleftrightarrow> t \<in> set (all_titles h)"
  using count_list_0_iff [of "all_titles h" t] by (auto simp add: occurrences_def)

lemma recurring_entry_iff:
  "(t, c) \<in> set (get_recurring_issues st) \<longleftrightarrow> c = occurrences t (history st) \<and> 3 \<le> c"
proof -
  have "(t, c) \<in> set (get_recurring_issues st)
          \<longleftrightarrow> (t, c) \<in> set (count_records [] (history st)) \<and> 3 \<le> c"
    by (auto simp add: get_recurring_issues_def Let_def RECURRING_ISSUE_THRESHOLD_def)
  also have "\<dots> \<longleftrightarrow> c = occurrences t (history st) \<and> 3 \<le> c"
    using occurrences_pos_iff [of t "history st"] by (auto simp add: count_records_entry)
  finally show ?thesis .
qed

lemma count_list_concat_ge:
  "length (filter (\<lambda>xs. x \<in> set xs) xss) \<le> count_list (concat xss) x"
proof (induction xss)
  case Nil
  then show ?case by simp
next
  case (Cons xs xss)
  have "x \<in> set xs \<Longrightarrow> 1 \<le> count_list xs x"
    using count_list_0_iff [of xs x] by (cases "count_list xs x") auto
  with Cons show ?case by (auto simp: )
qed

lemma records_with_le_occurrences: "records_with t h \<le> occurrences t h"
proof -
  have "records_with t h =
      length (filter (\<lambda>xs. t \<in> set xs) (map (\<lambda>r. map issue_title (record_issues_found r)) h))"
    by (simp add: records_with_def filter_map o_def list_ex_iff image_iff) metis
  then show ?thesis
    using count_list_concat_ge [of t "map (\<lambda>r. map issue_title (record_issues_found r)) h"]
    by (simp add: occurrences_def all_titles_def)
qed


subsection \<open>Recurrence is counted per issue entry\<close>

text \<open>
  The claim that a title is recurring exactly when it appears in at least three distinct
  iteration records fails: two \<^verbatim>\<open>Debug Statements\<close> findings in the first iteration and
  one in the second give a title that appears in exactly two records, is reported as
  recurring with three occurrences, and makes \<^verbatim>\<open>_should_escalate\<close> return true.
\<close>

theorem recurring_needs_three_records_counterexample:
  "records_with (JStr ''Debug Statements'')
     [\<lparr>iteration = 1, phase = REVIEW, record_status = ''rejected'',
       record_issues_found = [[(''title'', JStr ''Debug Statements'')],
                              [(''title'', JStr ''Debug Statements'')]]\<rparr>,
      \<lparr>iteration = 2, phase = REVIEW, record_status = ''rejected'',
       record_issues_found = [[(''title'', JStr ''Debug Statements'')]]\<rparr>] = 2
   \<and> get_recurring_issues
       \<lparr>current_iteration = 2, current_phase = REVIEW, consecutive_errors = 0,
        history =
          [\<lparr>iteration = 1, phase = REVIEW, record_status = ''rejected'',
            record_issues_found = [[(''title'', JStr ''Debug Statements'')],
                                   [(''title'', JStr ''Debug Statements'')]]\<rparr>,
           \<lparr>iteration = 2, phase = REVIEW, record_status = ''rejected'',
            record_issues_found = [[(''title'', JStr ''Debug Statements'')]]\<rparr>],
        is_approved = False, total_issues_found = 3, total_fixes_applied = 0,
        escalated_to_human = False\<rparr> = [(JStr ''Debug Statements'', 3)]
   \<and> should_escalate MAX_CONSECUTIVE_ERRORS
       \<lparr>current_iteration = 2, current_phase = REVIEW, consecutive_errors = 0,
        history =
          [\<lparr>iteration = 1, phase = REVIEW, record_status = ''rejected'',
            record_issues_found = [[(''title'', JStr ''Debug Statements'')],
                                   [(''title'', JStr ''Debug Statements'')]]\<rparr>,
           \<lparr>iteration = 2, phase = REVIEW, record_status = ''rejected'',
            record_issues_found = [[(''title'', JStr ''Debug Statements'')]]\<rparr>],
        is_approved = False, total_issues_found = 3, total_fixes_applied = 0,
        escalated_to_human = False\<rparr>"
  by (simp add: records_with_def issue_title_def dict_get_default_def get_recurring_issues_def
      should_escalate_def RECURRING_ISSUE_THRESHOLD_def)

text \<open>
  Claim C3, as the code has it. A title is recurring exactly when the issue entries that
  carry it, counted over all records of the history (several in one record count
  severally), number at least three; \<^verbatim>\<open>_should_escalate\<close> holds exactly when some title is
  recurring or the consecutive errors have reached their limit. A title that appears in
  three or more records is therefore always recurring.
\<close>

theorem recurring_iff_three_occurrences:
  "(t \<in> fst ` set (get_recurring_issues st) \<longleftrightarrow> 3 \<le> occurrences t (history st))
   \<and> (should_escalate m st \<longleftrightarrow>
        (\<exists>t. 3 \<le> occurrences t (history st)) \<or> m \<le> consecutive_errors st)
   \<and> (3 \<le> records_with t (history st) \<longrightarrow> t \<in> fst ` set (get_recurring_issues st))"
proof -
  have mem: "\<And>t. t \<in> fst ` set (get_recurring_issues st) \<longleftrightarrow> 3 \<le> occurrences t (history st)"
    using recurring_entry_iff [of _ _ st] by force
  have "get_recurring_issues st \<noteq> [] \<longleftrightarrow> (\<exists>t. t \<in> fst ` set (get_recurring_issues st))"
    by (cases "get_recurring_issues st") auto
  then have esc: "should_escalate m st \<longleftrightarrow>
        (\<exists>t. 3 \<le> occurrences t (history st)) \<or> m \<le> consecutive_errors st"
    unfolding should_escalate_def using mem by auto
  have "3 \<le> records_with t (history st) \<longrightarrow> 3 \<le> occurrences t (history st)"
    using records_with_le_occurrences [of t "history st"] by linarith
  with mem esc show ?thesis by blast
qed

theorem recurring_iff_three_occurrences_witness:
  "3 \<le> records_with (JStr ''Same Issue'')
     [\<lparr>iteration = 1, phase = REVIEW, record_status = ''rejected'',
       record_issues_found = [[(''title'', JStr ''Same Issue'')]]\<rparr>,
      \<lparr>iteration = 2, phase = REVIEW, record_status = ''rejected'',
       record_issues_found = [[(''title'', JStr ''Same Issue'')]]\<rparr>,
      \<lparr>iteration = 3, phase = REVIEW, record_status = ''rejected'',
       record_issues_found = [[(''title'', JStr ''Same Issue'')]]\<rparr>]
   \<and> JStr ''Same Issue'' \<in> fst ` set (get_recurring_issues
       \<lparr>current_iteration = 3, current_phase = REVIEW, consecutive_errors = 0,
        history =
          [\<lparr>iteration = 1, phase = REVIEW, record_status = ''rejected'',
            record_issues_found = [[(''title'', JStr ''Same Issue'')]]\<rparr>,
           \<lparr>iteration = 2, phase = REVIEW, record_status = ''rejected'',
            record_issues_found = [[(''title'', JStr ''Same Issue'')]]\<rparr>,
           \<lparr>iteration = 3, phase = REVIEW, record_status = ''rejected'',
            record_issues_found = [[(''title'', JStr ''Same Issue'')]]\<rparr>],
        is_approved = False, total_issues_found = 3, total_fixes_applied = 0,
        escalated_to_human = False\<rparr>)"
proof -
  have h: "3 \<le> records_with (JStr ''Same Issue'')
     [\<lparr>iteration = 1, phase = REVIEW, record_status = ''rejected'',
       record_issues_found = [[(''title'', JStr ''Same Issue'')]]\<rparr>,
      \<lparr>iteration = 2, phase = REVIEW, record_status = ''rejected'',
       record_issues_found = [[(''title'', JStr ''Same Issue'')]]\<rparr>,
      \<lparr>iteration = 3, phase = REVIEW, record_status = ''rejected'',
       record_issues_found = [[(''title'', JStr ''Same Issue'')]]\<rparr>]"
    by (simp add: records_with_def issue_title_def dict_get_default_def)
  show ?thesis
    using h recurring_iff_three_occurrences [of "JStr ''Same Issue''"
       "\<lparr>current_iteration = 3, current_phase = REVIEW, consecutive_errors = 0,
        history =
          [\<lparr>iteration = 1, phase = REVIEW, record_status = ''rejected'',
            record_issues_found = [[(''title'', JStr ''Same Issue'')]]\<rparr>,
           \<lparr>iteration = 2, phase = REVIEW, record_status = ''rejected'',
            record_issues_found = [[(''title'', JStr ''Same Issue'')]]\<rparr>,
           \<lparr>iteration = 3, phase = REVIEW, record_status = ''rejected'',
            record_issues_found = [[(''title'', JStr ''Same Issue'')]]\<rparr>],
        is_approved = False, total_issues_found = 3, total_fixes_applied = 0,
        escalated_to_human = False\<rparr>" 0, THEN conjunct2, THEN conjunct2]
    by simp
qed


section \<open>Python strings: case and substrings\<close>

text \<open>
  Text is modelled as ASCII: \<^verbatim>\<open>str.lower\<close> maps \<^verbatim>\<open>A-Z\<close> to \<^verbatim>\<open>a-z\<close>, and \<^verbatim>\<open>sub in s\<close> is
  substring search.
\<close>

definition lower_char :: "char \<Rightarrow> char" where
  "lower_char c =
     (let n = (of_char c :: nat) in if 65 \<le> n \<and> n \<le> 90 then char_of (n + 32) else c)"

definition lower :: "string \<Rightarrow> string" where
  "lower s = map lower_char s"

fun starts_with :: "string \<Rightarrow> string \<Rightarrow> bool" where
  "starts_with [] s = True"
| "starts_with (p # ps) [] = False"
| "starts_with (p # ps) (c # cs) = (p = c \<and> starts_with ps cs)"

fun str_contains :: "string \<Rightarrow> string \<Rightarrow> bool" where
  "str_contains sub [] = (sub = [])"
| "str_contains sub (c # cs) = (starts_with sub (c # cs) \<or> str_contains sub cs)"

text \<open>The character classes \<^verbatim>\<open>\s\<close>, \<^verbatim>\<open>\d\<close> and \<^verbatim>\<open>\w\<close> of \<^verbatim>\<open>re\<close>, on ASCII.\<close>

definition is_space :: "char \<Rightarrow> bool" where
  "is_space c = (let n = (of_char c :: nat) in (9 \<le> n \<and> n \<le> 13) \<or> (28 \<le> n \<and> n \<le> 32))"

definition is_digit :: "char \<Rightarrow> bool" where
  "is_digit c = (let n = (of_char c :: nat) in 48 \<le> n \<and> n \<le> 57)"

definition is_word_char :: "char \<Rightarrow> bool" where
  "is_word_char c =
     (let n = (of_char c :: nat)
      in (48 \<le> n \<and> n \<le> 57) \<or> (65 \<le> n \<and> n \<le> 90) \<or> (97 \<le> n \<and> n \<le> 122) \<or> n = 95)"

section \<open>Worktree manager: push with retry (core/worktree.py)\<close>

definition is_retryable_network_error :: "string \<Rightarrow> bool" where
  "is_retryable_network_error stderr =
     (let stderr_lower = lower stderr
      in list_ex (\<lambda>term. str_contains term stderr_lower)
           [''connection'', ''network'', ''timeout'', ''reset'', ''refused''])"

text \<open>
  The pattern \<^verbatim>\<open>http[s]?\s*5\d{2}\<close> at the head of a string, and \<^verbatim>\<open>re.search\<close> for it
  anywhere in the string.
\<close>

definition http_5xx_tail :: "string \<Rightarrow> bool" where
  "http_5xx_tail r =
     (case dropWhile is_space r of
        c1 # c2 # c3 # _ \<Rightarrow> c1 = CHR ''5'' \<and> is_digit c2 \<and> is_digit c3
      | _ \<Rightarrow> False)"

definition http_5xx_here :: "string \<Rightarrow> bool" where
  "http_5xx_here s =
     (starts_with ''http'' s \<and>
      ((case drop 4 s of c # r \<Rightarrow> c = CHR ''s'' \<and> http_5xx_tail r | [] \<Rightarrow> False)
       \<or> http_5xx_tail (drop 4 s)))"

fun search_http_5xx :: "string \<Rightarrow> bool" where
  "search_http_5xx [] = False"
| "search_http_5xx (c # cs) = (http_5xx_here (c # cs) \<or> search_http_5xx cs)"

definition is_retryable_http_error :: "string \<Rightarrow> bool" where
  "is_retryable_http_error stderr =
     (let stderr_lower = lower stderr
      in if search_http_5xx stderr_lower then True
         else if str_contains ''http'' stderr_lower \<and> str_contains ''timeout'' stderr_lower then True
         else False)"

text \<open>
  What a call of the operation passed to \<^verbatim>\<open>_with_retry\<close> does: it returns the triple
  \<^verbatim>\<open>(success, result, error)\<close>, raises \<^verbatim>\<open>subprocess.TimeoutExpired\<close>, or raises another
  exception.
\<close>

datatype 'a op_result =
  Returned bool "'a option" string
| Raised_TimeoutExpired
| Raised_Other string

text \<open>
  The \<^verbatim>\<open>for attempt in range(1, max_retries + 1)\<close> loop of \<^verbatim>\<open>_with_retry\<close>. The operation is
  a function of the attempt number, since each call may end differently. The loop state
  is the attempt number, \<^verbatim>\<open>last_error\<close>, and the durations passed to \<^verbatim>\<open>time.sleep\<close> so far.
  Only \<^verbatim>\<open>TimeoutExpired\<close> is caught; any other exception leaves the function (\<open>Inl\<close>).
  \<^verbatim>\<open>push_branch\<close> passes no \<^verbatim>\<open>on_retry\<close> callback, which is left out.
\<close>

function with_retry_loop ::
  "(nat \<Rightarrow> 'a op_result) \<Rightarrow> nat \<Rightarrow> (string \<Rightarrow> bool) option \<Rightarrow> nat \<Rightarrow> string \<Rightarrow> nat list
     \<Rightarrow> string + (('a option \<times> string) \<times> nat list)" where
  "with_retry_loop operation max_retries is_retryable attempt last_error sleeps =
     (if attempt > max_retries then Inr ((None, last_error), sleeps)
      else
        (case operation attempt of
           Returned success result error \<Rightarrow>
             (if success then Inr ((result, ''''), sleeps)
              else if (case is_retryable of
                         None \<Rightarrow> False
                       | Some retryable \<Rightarrow> attempt < max_retries \<and> retryable error)
              then with_retry_loop operation max_retries is_retryable (attempt + 1) error
                     (sleeps @ [2 ^ (attempt - 1)])
              else Inr ((None, error), sleeps))
         | Raised_TimeoutExpired \<Rightarrow>
             (if attempt < max_retries
              then with_retry_loop operation max_retries is_retryable (attempt + 1)
                     ''Operation timed out'' (sleeps @ [2 ^ (attempt - 1)])
              else Inr ((None, ''Operation timed out''), sleeps))
         | Raised_Other e \<Rightarrow> Inl e))"
  by pat_completeness auto
termination
  by (relation "measure (\<lambda>(operation, max_retries, is_retryable, attempt, last_error, sleeps).
        max_retries + 1 - attempt)") auto

declare with_retry_loop.simps [simp del]

definition with_retry ::
  "(nat \<Rightarrow> 'a op_result) \<Rightarrow> nat \<Rightarrow> (string \<Rightarrow> bool) option
     \<Rightarrow> string + (('a option \<times> string) \<times> nat list)" where
  "with_retry operation max_retries is_retryable =
     with_retry_loop operation max_retries is_retryable 1 '''' []"

text \<open>
  \<^verbatim>\<open>PushBranchResult\<close> is a \<^verbatim>\<open>TypedDict\<close> with \<^verbatim>\<open>total=False\<close>: apart from \<^verbatim>\<open>success\<close>, which
  every result sets, a key may be absent.
\<close>

record PushBranchResult =
  success :: bool
  branch :: "string option"
  remote :: "string option"
  error :: "string option"

record WorktreeInfo =
  path :: string
  info_branch :: string
  spec_name :: string
  base_branch :: string
  is_active :: bool
  commit_count :: int
  files_changed :: int
  additions :: int
  deletions :: int
  days_since_last_commit :: "int option"

text \<open>How \<^verbatim>\<open>subprocess.run\<close> ends: with a return code and stderr, or with an exception.\<close>

datatype run_outcome =
  Completed int string
| TimeoutExpired
| FileNotFoundError
| OtherException string

definition push_args :: "string \<Rightarrow> bool \<Rightarrow> string list" where
  "push_args b force =
     (if force then [''push'', ''--force'', ''-u'', ''origin'', b]
      else [''push'', ''-u'', ''origin'', b])"

definition do_push :: "string \<Rightarrow> run_outcome \<Rightarrow> PushBranchResult op_result" where
  "do_push b outcome =
     (case outcome of
        Completed returncode stderr \<Rightarrow>
          (if returncode = 0
           then Returned True
                  (Some \<lparr>success = True, branch = Some b, remote = Some ''origin'', error = None\<rparr>)
                  ''''
           else Returned False None stderr)
      | FileNotFoundError \<Rightarrow> Returned False None ''git executable not found''
      | TimeoutExpired \<Rightarrow> Raised_TimeoutExpired
      | OtherException e \<Rightarrow> Raised_Other e)"

text \<open>
  \<^verbatim>\<open>WorktreeManager.push_branch\<close>. \<open>info\<close> is the result of \<^verbatim>\<open>get_worktree_info\<close>; \<open>run\<close>
  gives, for the git arguments and the attempt number, how that \<^verbatim>\<open>subprocess.run\<close> ends.
  The result comes with the list of sleeps; \<open>Inl\<close> is an exception that leaves the function.
\<close>

definition push_branch ::
  "string \<Rightarrow> bool \<Rightarrow> WorktreeInfo option \<Rightarrow> (string list \<Rightarrow> nat \<Rightarrow> run_outcome)
     \<Rightarrow> string + (PushBranchResult \<times> nat list)" where
  "push_branch spec force info run =
     (case info of
        None \<Rightarrow>
          Inr (\<lparr>success = False, branch = None, remote = None,
                error = Some (''No worktree found for spec: '' @ spec)\<rparr>, [])
      | Some i \<Rightarrow>
          (let max_retries = 3 in
           case with_retry (\<lambda>attempt. do_push (info_branch i) (run (push_args (info_branch i) force) attempt))
                  max_retries (Some is_retryable_network_error) of
             Inl e \<Rightarrow> Inl e
           | Inr ((result, last_error), sleeps) \<Rightarrow>
               (case result of
                  Some r \<Rightarrow> Inr (r, sleeps)
                | None \<Rightarrow>
                    (if last_error = ''Operation timed out''
                     then Inr (\<lparr>success = False, branch = Some (info_branch i), remote = None,
                                error = Some (''Push timed out after '' @ str_of_nat max_retries
                                              @ '' attempts.'')\<rparr>, sleeps)
                     else Inr (\<lparr>success = False, branch = Some (info_branch i), remote = None,
                                error = Some (''Failed to push branch: '' @ last_error)\<rparr>,
                               sleeps)))))"

text \<open>
  Two readings of a finished \<^verbatim>\<open>subprocess.run\<close>, used to state the retry policy: whether
  the loop goes on to another attempt after it (when attempts remain), and the diagnostic
  the loop keeps as \<^verbatim>\<open>last_error\<close>.
\<close>

definition push_retry_cause :: "run_outcome \<Rightarrow> bool" where
  "push_retry_cause outcome =
     (case outcome of
        Completed returncode stderr \<Rightarrow> returncode \<noteq> 0 \<and> is_retryable_network_error stderr
      | TimeoutExpired \<Rightarrow> True
      | FileNotFoundError \<Rightarrow> False
      | OtherException e \<Rightarrow> False)"

definition push_diagnostic :: "run_outcome \<Rightarrow> string" where
  "push_diagnostic outcome =
     (case outcome of
        Completed returncode stderr \<Rightarrow> stderr
      | TimeoutExpired \<Rightarrow> ''Operation timed out''
      | FileNotFoundError \<Rightarrow> ''git executable not found''
      | OtherException e \<Rightarrow> e)"

definition push_failed :: "run_outcome \<Rightarrow> bool" where
  "push_failed outcome = (case outcome of Completed returncode stderr \<Rightarrow> returncode \<noteq> 0 | _ \<Rightarrow> True)"

subsection \<open>The loop with three attempts\<close>

lemma with_retry_loop_at_3:
  "with_retry_loop operation 3 (Some f) 3 e s =
     (case operation 3 of
        Returned ok res err \<Rightarrow> (if ok then Inr ((res, ''''), s) else Inr ((None, err), s))
      | Raised_TimeoutExpired \<Rightarrow> Inr ((None, ''Operation timed out''), s)
      | Raised_Other x \<Rightarrow> Inl x)"
  by (subst with_retry_loop.simps, cases "operation 3") simp_all

lemma with_retry_loop_at_2:
  "with_retry_loop operation 3 (Some f) 2 e s =
     (case operation 2 of
        Returned ok res err \<Rightarrow>
          (if ok then Inr ((res, ''''), s)
           else if f err then with_retry_loop operation 3 (Some f) 3 err (s @ [2])
           else Inr ((None, err), s))
      | Raised_TimeoutExpired \<Rightarrow>
          with_retry_loop operation 3 (Some f) 3 ''Operation timed out'' (s @ [2])
      | Raised_Other x \<Rightarrow> Inl x)"
  by (subst with_retry_loop.simps, cases "operation 2") simp_all

lemma with_retry_loop_at_1:
  "with_retry_loop operation 3 (Some f) 1 e s =
     (case operation 1 of
        Returned ok res err \<Rightarrow>
          (if ok then Inr ((res, ''''), s)
           else if f err then with_retry_loop operation 3 (Some f) 2 err (s @ [1])
           else Inr ((None, err), s))
      | Raised_TimeoutExpired \<Rightarrow>
          with_retry_loop operation 3 (Some f) 2 ''Operation timed out'' (s @ [1])
      | Raised_Other x \<Rightarrow> Inl x)"
  by (subst with_retry_loop.simps, cases "operation 1") (simp_all add: numeral_2_eq_2)

lemma with_retry_3:
  "with_retry operation 3 (Some f) =
     (case operation 1 of
        Returned ok res err \<Rightarrow>
          (if ok then Inr ((res, ''''), [])
           else if f err then with_retry_loop operation 3 (Some f) 2 err [1]
           else Inr ((None, err), []))
      | Raised_TimeoutExpired \<Rightarrow>
          with_retry_loop operation 3 (Some f) 2 ''Operation timed out'' [1]
      | Raised_Other x \<Rightarrow> Inl x)"
  unfolding with_retry_def by (simp only: with_retry_loop_at_1 append_Nil)

lemma not_retryable_git_missing: "\<not> is_retryable_network_error ''git executable not found''"
  by (simp add: is_retryable_network_error_def lower_def lower_char_def)

lemma not_retryable_timed_out: "\<not> is_retryable_network_error ''Operation timed out''"
  by (simp add: is_retryable_network_error_def lower_def lower_char_def)

lemma str_of_nat_3: "str_of_nat 3 = ''3''"
  by code_simp

text \<open>
  Claim C7, as the code has it. Provided \<^verbatim>\<open>subprocess.run\<close> raises nothing but
  \<^verbatim>\<open>TimeoutExpired\<close> and \<^verbatim>\<open>FileNotFoundError\<close>, \<^verbatim>\<open>push_branch\<close> returns a record and never raises.
  It makes at most three attempts and sleeps 1 second after the first and 2 seconds after
  the second, that is \<^verbatim>\<open>2 ** (attempt - 1)\<close>. It goes on to the next attempt exactly when the
  push timed out, or failed with a stderr that contains, in any letter case, one of
  \<^verbatim>\<open>connection\<close>, \<^verbatim>\<open>network\<close>, \<^verbatim>\<open>timeout\<close>, \<^verbatim>\<open>reset\<close>, \<^verbatim>\<open>refused\<close>; an HTTP 5xx status plays no
  part. The result is a success exactly when the last attempt made succeeded; otherwise it
  is the record with \<^verbatim>\<open>success=False\<close>, the branch, and the error
  \<^verbatim>\<open>Push timed out after 3 attempts.\<close> when the last diagnostic is \<^verbatim>\<open>Operation timed out\<close>, and
  \<^verbatim>\<open>Failed to push branch: \<close> followed by the last diagnostic when it is not.
\<close>

theorem push_branch_retry_policy:
  assumes "\<forall>n e. run (push_args (info_branch i) force) n \<noteq> OtherException e"
  shows "\<exists>r sleeps. push_branch spec force (Some i) run = Inr (r, sleeps)
     \<and> prefix sleeps [1, 2]
     \<and> (sleeps \<noteq> [] \<longleftrightarrow> push_retry_cause (run (push_args (info_branch i) force) 1))
     \<and> (length sleeps = 2 \<longleftrightarrow>
          push_retry_cause (run (push_args (info_branch i) force) 1)
          \<and> push_retry_cause (run (push_args (info_branch i) force) 2))
     \<and> (success r \<longleftrightarrow> \<not> push_failed (run (push_args (info_branch i) force) (length sleeps + 1)))
     \<and> (\<not> success r \<longrightarrow>
          r = \<lparr>success = False, branch = Some (info_branch i), remote = None,
               error = Some
                 (if push_diagnostic (run (push_args (info_branch i) force) (length sleeps + 1))
                       = ''Operation timed out''
                  then ''Push timed out after 3 attempts.''
                  else ''Failed to push branch: ''
                       @ push_diagnostic (run (push_args (info_branch i) force) (length sleeps + 1)))\<rparr>)"
proof -
  let ?a = "push_args (info_branch i) force"
  have e2: "run ?a 2 = run ?a (Suc (Suc 0))" and e3: "run ?a 3 = run ?a (Suc (Suc (Suc 0)))"
    by (simp_all add: numeral_2_eq_2 numeral_3_eq_3)
  from assms have n1: "\<forall>e. run ?a (Suc 0) \<noteq> OtherException e"
    and n2: "\<forall>e. run ?a (Suc (Suc 0)) \<noteq> OtherException e"
    and n3: "\<forall>e. run ?a (Suc (Suc (Suc 0))) \<noteq> OtherException e"
    by blast+
  show ?thesis
    using n1 n2 n3
    by (cases "run ?a (Suc 0)"; cases "run ?a (Suc (Suc 0))"; cases "run ?a (Suc (Suc (Suc 0)))")
       (simp_all add: push_branch_def with_retry_3 with_retry_loop_at_2 with_retry_loop_at_3
          do_push_def push_retry_cause_def push_diagnostic_def push_failed_def
          not_retryable_git_missing not_retryable_timed_out str_of_nat_3 e2 e3)
qed


text \<open>
  The claim that a failed push is retried only for a diagnostic with one of the five
  network words or an HTTP 5xx status fails in both directions. A push that fails with
  \<^verbatim>\<open>HTTP 503 Service Unavailable\<close>, which \<^verbatim>\<open>_is_retryable_http_error\<close> accepts, is attempted
  once and reported as failed: \<^verbatim>\<open>push_branch\<close> passes only \<^verbatim>\<open>_is_retryable_network_error\<close> to
  \<^verbatim>\<open>_with_retry\<close>. A push that times out is retried twice, though its diagnostic
  \<^verbatim>\<open>Operation timed out\<close> has none of the five words and no HTTP status.
\<close>

theorem push_retry_http_5xx_counterexample:
  "is_retryable_http_error ''HTTP 503 Service Unavailable''
   \<and> push_branch ''spec-x'' False
        (Some \<lparr>path = ''.claude-god-code/worktrees/specs/spec-x'',
               info_branch = ''claude-god-code/spec-x'', spec_name = ''spec-x'',
               base_branch = ''main'', is_active = True, commit_count = 0, files_changed = 0,
               additions = 0, deletions = 0, days_since_last_commit = None\<rparr>)
        (\<lambda>args attempt. Completed 1 ''HTTP 503 Service Unavailable'')
      = Inr (\<lparr>success = False, branch = Some ''claude-god-code/spec-x'', remote = None,
              error = Some ''Failed to push branch: HTTP 503 Service Unavailable''\<rparr>, [])
   \<and> \<not> is_retryable_network_error ''Operation timed out''
   \<and> \<not> is_retryable_http_error ''Operation timed out''
   \<and> push_branch ''spec-x'' False
        (Some \<lparr>path = ''.claude-god-code/worktrees/specs/spec-x'',
               info_branch = ''claude-god-code/spec-x'', spec_name = ''spec-x'',
               base_branch = ''main'', is_active = True, commit_count = 0, files_changed = 0,
               additions = 0, deletions = 0, days_since_last_commit = None\<rparr>)
        (\<lambda>args attempt. TimeoutExpired)
      = Inr (\<lparr>success = False, branch = Some ''claude-god-code/spec-x'', remote = None,
              error = Some ''Push timed out after 3 attempts.''\<rparr>, [1, 2])"
proof -
  have a: "is_retryable_http_error ''HTTP 503 Service Unavailable''"
    by code_simp
  have b: "\<not> is_retryable_network_error ''HTTP 503 Service Unavailable''"
    by code_simp
  have c: "\<not> is_retryable_http_error ''Operation timed out''"
    by code_simp
  show ?thesis
    by (simp add: a b c not_retryable_timed_out push_branch_def with_retry_3
        with_retry_loop_at_2 with_retry_loop_at_3 do_push_def str_of_nat_3)
qed

theorem push_branch_retry_policy_witness:
  "(\<forall>n e. (\<lambda>args attempt. TimeoutExpired) (push_args ''claude-god-code/spec-x'' False) n
             \<noteq> OtherException e)
   \<and> (\<exists>r sleeps.
        push_branch ''spec-x'' False
          (Some \<lparr>path = ''.claude-god-code/worktrees/specs/spec-x'',
                 info_branch = ''claude-god-code/spec-x'', spec_name = ''spec-x'',
                 base_branch = ''main'', is_active = True, commit_count = 0, files_changed = 0,
                 additions = 0, deletions = 0, days_since_last_commit = None\<rparr>)
          (\<lambda>args attempt. TimeoutExpired) = Inr (r, sleeps)
        \<and> length sleeps = 2 \<and> \<not> success r
        \<and> error r = Some ''Push timed out after 3 attempts.'')"
proof -
  show ?thesis
    using push_branch_retry_policy [where run = "\<lambda>args attempt. TimeoutExpired"
        and force = False and spec = "''spec-x''"
        and i = "\<lparr>path = ''.claude-god-code/worktrees/specs/spec-x'',
                 info_branch = ''claude-god-code/spec-x'', spec_name = ''spec-x'',
                 base_branch = ''main'', is_active = True, commit_count = 0, files_changed = 0,
                 additions = 0, deletions = 0, days_since_last_commit = None\<rparr>"]
    by (auto simp add: push_retry_cause_def push_diagnostic_def push_failed_def)
qed

section \<open>Worktree manager: creating a worktree (core/worktree.py)\<close>

text \<open>
  \<^verbatim>\<open>run_git\<close> of \<^verbatim>\<open>core.git_executable\<close> and the file system are the environment of the
  manager. The state of the repository and of the file system is a value of an arbitrary
  type \<open>'w\<close>; \<open>run_git args w\<close> gives the completed process and the state after the command,
  \<open>path_exists p w\<close> is \<^verbatim>\<open>Path(p).exists()\<close>. Output printed with \<^verbatim>\<open>print\<close> is left out.
\<close>

record CompletedProcess =
  git_returncode :: int
  git_stdout :: string
  git_stderr :: string

datatype worktree_exception = WorktreeError string

record WorktreeManager =
  project_dir :: string
  manager_base_branch :: string
  worktrees_dir :: string

text \<open>Joining a directory and a plain file name, as \<^verbatim>\<open>Path.__truediv__\<close> does.\<close>

definition path_join :: "string \<Rightarrow> string \<Rightarrow> string" where
  "path_join d name = d @ ''/'' @ name"

definition get_worktree_path ::
  "(string \<Rightarrow> 'w \<Rightarrow> bool) \<Rightarrow> WorktreeManager \<Rightarrow> string \<Rightarrow> 'w \<Rightarrow> string" where
  "get_worktree_path path_exists m spec w =
     (let new_path = path_join (worktrees_dir m) spec in
      if path_exists new_path w then new_path
      else
        (let legacy_path = path_join (path_join (project_dir m) ''.worktrees'') spec in
         if path_exists legacy_path w then legacy_path else new_path))"

definition get_branch_name :: "string \<Rightarrow> string" where
  "get_branch_name spec = ''claude-god-code/'' @ spec"

definition check_branch_namespace_conflict ::
  "(string list \<Rightarrow> 'w \<Rightarrow> CompletedProcess \<times> 'w) \<Rightarrow> 'w \<Rightarrow> string option \<times> 'w" where
  "check_branch_namespace_conflict run_git w =
     (let (result, w') = run_git [''rev-parse'', ''--verify'', ''claude-god-code''] w in
      if git_returncode result = 0 then (Some ''claude-god-code'', w') else (None, w'))"

definition newline :: string where
  "newline = [CHR 0x0A]"

definition quote :: string where
  "quote = [CHR 0x27]"

text \<open>The message of the \<^verbatim>\<open>WorktreeError\<close> raised on a namespace conflict.\<close>

definition conflict_message :: "string \<Rightarrow> string \<Rightarrow> string \<Rightarrow> string" where
  "conflict_message conflicting_branch branch_name spec =
     ''Branch '' @ quote @ conflicting_branch @ quote @ '' exists and blocks creating ''
       @ quote @ branch_name @ quote @ ''.'' @ newline
     @ newline
     @ ''Git branch names work like file paths - a branch named 'claude-god-code' prevents''
       @ newline
     @ ''creating branches under 'claude-god-code/' (like 'claude-god-code/'' @ spec @ quote
       @ '').'' @ newline
     @ newline
     @ ''Fix: Rename the conflicting branch:'' @ newline
     @ ''  git branch -m '' @ conflicting_branch @ '' '' @ conflicting_branch @ ''-backup''"

text \<open>
  \<^verbatim>\<open>WorktreeManager.create_worktree\<close>: the result is the raised \<^verbatim>\<open>WorktreeError\<close> or the
  \<^verbatim>\<open>WorktreeInfo\<close>, with the state the commands leave behind.
\<close>

definition create_worktree ::
  "(string list \<Rightarrow> 'w \<Rightarrow> CompletedProcess \<times> 'w) \<Rightarrow> (string \<Rightarrow> 'w \<Rightarrow> bool)
     \<Rightarrow> WorktreeManager \<Rightarrow> string \<Rightarrow> 'w \<Rightarrow> (worktree_exception + WorktreeInfo) \<times> 'w" where
  "create_worktree run_git path_exists m spec w =
     (let worktree_path = get_worktree_path path_exists m spec w;
          branch_name = get_branch_name spec;
          (conflicting_branch, w0) = check_branch_namespace_conflict run_git w
      in case conflicting_branch of
           Some cb \<Rightarrow> (Inl (WorktreeError (conflict_message cb branch_name spec)), w0)
         | None \<Rightarrow>
             (let w1 = (if path_exists worktree_path w0
                        then snd (run_git [''worktree'', ''remove'', ''--force'', worktree_path] w0)
                        else w0);
                  w2 = snd (run_git [''branch'', ''-D'', branch_name] w1);
                  (fetch_result, w3) = run_git [''fetch'', ''origin'', manager_base_branch m] w2;
                  remote_ref = ''origin/'' @ manager_base_branch m;
                  (check_remote, w4) = run_git [''rev-parse'', ''--verify'', remote_ref] w3;
                  start_point = (if git_returncode check_remote = 0 then remote_ref
                                 else manager_base_branch m);
                  (result, w5) =
                     run_git [''worktree'', ''add'', ''-b'', branch_name, worktree_path, start_point] w4
              in if git_returncode result \<noteq> 0
                 then (Inl (WorktreeError (''Failed to create worktree for '' @ spec @ '': ''
                                           @ git_stderr result)), w5)
                 else (Inr \<lparr>path = worktree_path, info_branch = branch_name, spec_name = spec,
                            base_branch = manager_base_branch m, is_active = True,
                            commit_count = 0, files_changed = 0, additions = 0, deletions = 0,
                            days_since_last_commit = None\<rparr>, w5)))"

text \<open>
  A small repository for examples: its state is the list of local branch names and the
  list of existing directories. \<^verbatim>\<open>rev-parse --verify\<close> succeeds on a branch of the list and
  changes nothing; \<^verbatim>\<open>worktree add -b\<close> creates the branch and the directory; every other
  command succeeds without effect.
\<close>

definition toy_git :: "string list \<Rightarrow> string list \<times> string list \<Rightarrow> CompletedProcess \<times> (string list \<times> string list)" where
  "toy_git args w =
     (case args of
        [a, b, r] \<Rightarrow>
          (if a = ''rev-parse'' \<and> b = ''--verify''
           then (\<lparr>git_returncode = (if r \<in> set (fst w) then 0 else 128), git_stdout = '''',
                  git_stderr = ''''\<rparr>, w)
           else (\<lparr>git_returncode = 0, git_stdout = '''', git_stderr = ''''\<rparr>, w))
      | [a, b, c, br, p, s] \<Rightarrow>
          (if a = ''worktree'' \<and> b = ''add''
           then (\<lparr>git_returncode = 0, git_stdout = '''', git_stderr = ''''\<rparr>,
                 (br # fst w, p # snd w))
           else (\<lparr>git_returncode = 0, git_stdout = '''', git_stderr = ''''\<rparr>, w))
      | _ \<Rightarrow> (\<lparr>git_returncode = 0, git_stdout = '''', git_stderr = ''''\<rparr>, w))"

definition toy_exists :: "string \<Rightarrow> string list \<times> string list \<Rightarrow> bool" where
  "toy_exists p w = (p \<in> set (snd w))"


subsection \<open>Namespace conflict\<close>

lemma conflict_message_names_branch:
  "prefix (''Branch 'claude-god-code' exists and blocks creating 'claude-god-code/'' @ spec)
     (conflict_message ''claude-god-code'' (get_branch_name spec) spec)"
  by (simp add: conflict_message_def get_branch_name_def quote_def)

lemma conflict_message_suggests_rename:
  "suffix ''git branch -m claude-god-code claude-god-code-backup''
     (conflict_message ''claude-god-code'' b spec)"
  unfolding suffix_def conflict_message_def by (rule exI) (simp del: append_assoc add: append_assoc [symmetric])

text \<open>
  Claim C8. If \<^verbatim>\<open>git rev-parse --verify claude-god-code\<close> succeeds, which is how the manager
  detects a plain branch equal to the branch prefix, then \<^verbatim>\<open>create_worktree\<close> raises a
  \<^verbatim>\<open>WorktreeError\<close> whose message begins by naming the conflicting branch and the branch it
  blocks and ends with the command \<^verbatim>\<open>git branch -m claude-god-code claude-god-code-backup\<close>.
  No other git command has run by then: the state is the one the query leaves, so when the
  query changes nothing the state is untouched, and no path exists that did not exist before.
\<close>

theorem create_worktree_namespace_conflict:
  assumes "git_returncode (fst (run_git [''rev-parse'', ''--verify'', ''claude-god-code''] w)) = 0"
  shows "\<exists>msg. create_worktree run_git path_exists m spec w
            = (Inl (WorktreeError msg), snd (run_git [''rev-parse'', ''--verify'', ''claude-god-code''] w))
         \<and> prefix (''Branch 'claude-god-code' exists and blocks creating 'claude-god-code/'' @ spec) msg
         \<and> suffix ''git branch -m claude-god-code claude-god-code-backup'' msg
         \<and> (snd (run_git [''rev-parse'', ''--verify'', ''claude-god-code''] w) = w \<longrightarrow>
              snd (create_worktree run_git path_exists m spec w) = w
              \<and> (\<forall>p. path_exists p (snd (create_worktree run_git path_exists m spec w))
                       = path_exists p w))"
proof -
  obtain r w' where rw: "run_git [''rev-parse'', ''--verify'', ''claude-god-code''] w = (r, w')"
    by (cases "run_git [''rev-parse'', ''--verify'', ''claude-god-code''] w")
  with assms have r0: "git_returncode r = 0" by simp
  have cw: "create_worktree run_git path_exists m spec w
      = (Inl (WorktreeError (conflict_message ''claude-god-code'' (get_branch_name spec) spec)), w')"
    by (simp add: create_worktree_def check_branch_namespace_conflict_def rw r0 Let_def)
  show ?thesis
    using conflict_message_names_branch [of spec]
      conflict_message_suggests_rename [of "get_branch_name spec" spec]
    by (simp add: cw rw)
qed

theorem create_worktree_namespace_conflict_witness:
  "git_returncode (fst (toy_git [''rev-parse'', ''--verify'', ''claude-god-code'']
       ([''main'', ''claude-god-code''], []))) = 0
   \<and> (\<exists>msg. create_worktree toy_git toy_exists
          \<lparr>project_dir = ''/repo'', manager_base_branch = ''main'',
           worktrees_dir = ''/repo/.claude-god-code/worktrees/specs''\<rparr> ''spec-x''
          ([''main'', ''claude-god-code''], [])
        = (Inl (WorktreeError msg), ([''main'', ''claude-god-code''], []))
      \<and> suffix ''git branch -m claude-god-code claude-god-code-backup'' msg)
   \<and> \<not> toy_exists ''/repo/.claude-god-code/worktrees/specs/spec-x''
        (snd (create_worktree toy_git toy_exists
          \<lparr>project_dir = ''/repo'', manager_base_branch = ''main'',
           worktrees_dir = ''/repo/.claude-god-code/worktrees/specs''\<rparr> ''spec-x''
          ([''main'', ''claude-god-code''], [])))"
proof -
  have h: "git_returncode (fst (toy_git [''rev-parse'', ''--verify'', ''claude-god-code'']
       ([''main'', ''claude-god-code''], []))) = 0"
    by (simp add: toy_git_def)
  have s: "snd (toy_git [''rev-parse'', ''--verify'', ''claude-god-code'']
       ([''main'', ''claude-god-code''], [])) = ([''main'', ''claude-god-code''], [])"
    by (simp add: toy_git_def)
  show ?thesis
    using h create_worktree_namespace_conflict [where run_git = toy_git
        and w = "([''main'', ''claude-god-code''], [])" and path_exists = toy_exists
        and m = "\<lparr>project_dir = ''/repo'', manager_base_branch = ''main'',
           worktrees_dir = ''/repo/.claude-god-code/worktrees/specs''\<rparr>"
        and spec = "''spec-x''", OF h]
    by (auto simp add: s toy_exists_def)
qed

text \<open>Without the conflicting branch the same call creates the branch and the directory.\<close>

lemma create_worktree_toy_success:
  "create_worktree toy_git toy_exists
     \<lparr>project_dir = ''/repo'', manager_base_branch = ''main'',
      worktrees_dir = ''/repo/.claude-god-code/worktrees/specs''\<rparr> ''spec-x'' ([''main''], [])
   = (Inr \<lparr>path = ''/repo/.claude-god-code/worktrees/specs/spec-x'',
           info_branch = ''claude-god-code/spec-x'', spec_name = ''spec-x'',
           base_branch = ''main'', is_active = True, commit_count = 0, files_changed = 0,
           additions = 0, deletions = 0, days_since_last_commit = None\<rparr>,
      ([''claude-god-code/spec-x'', ''main''],
       [''/repo/.claude-god-code/worktrees/specs/spec-x'']))"
  by (simp add: create_worktree_def check_branch_namespace_conflict_def toy_git_def
      toy_exists_def get_worktree_path_def get_branch_name_def path_join_def Let_def)

section \<open>Complexity assessment (spec/complexity.py)\<close>

datatype Complexity =
  Complexity_SIMPLE | Complexity_STANDARD | Complexity_COMPLEX | Complexity_CRITICAL

definition SIMPLE_KEYWORDS :: "string list" where
  "SIMPLE_KEYWORDS =
     [''fix'', ''typo'', ''update'', ''change'', ''rename'', ''remove'', ''delete'',
      ''adjust'', ''tweak'', ''correct'', ''modify'', ''style'', ''color'', ''text'',
      ''label'', ''button'', ''margin'', ''padding'', ''font'', ''size'', ''hide'', ''show'',
      ''comment'', ''readme'', ''docs'', ''documentation'']"

definition STANDARD_KEYWORDS :: "string list" where
  "STANDARD_KEYWORDS =
     [''add'', ''create'', ''implement'', ''feature'', ''component'', ''page'', ''form'',
      ''validation'', ''handler'', ''endpoint'', ''route'', ''service'', ''helper'',
      ''utility'', ''hook'', ''context'', ''state'', ''store'']"

definition COMPLEX_KEYWORDS :: "string list" where
  "COMPLEX_KEYWORDS =
     [''integrate'', ''integration'', ''api'', ''sdk'', ''library'', ''package'',
      ''database'', ''migrate'', ''migration'', ''docker'', ''kubernetes'', ''deploy'',
      ''authentication'', ''oauth'', ''graphql'', ''websocket'', ''queue'', ''cache'',
      ''redis'', ''postgres'', ''mongo'', ''elasticsearch'', ''kafka'', ''rabbitmq'',
      ''microservice'', ''refactor'', ''architecture'', ''infrastructure'',
      ''performance'', ''optimization'', ''security'', ''encryption'']"

definition CRITICAL_KEYWORDS :: "string list" where
  "CRITICAL_KEYWORDS =
     [''breaking'', ''major'', ''migration'', ''schema'', ''rollback'', ''downtime'',
      ''production'', ''critical'', ''urgent'', ''emergency'', ''security'', ''vulnerability'',
      ''data loss'', ''corruption'', ''recovery'']"

definition MULTI_SERVICE_KEYWORDS :: "string list" where
  "MULTI_SERVICE_KEYWORDS =
     [''backend'', ''frontend'', ''worker'', ''service'', ''api'', ''client'', ''server'',
      ''database'', ''queue'', ''cache'', ''proxy'', ''gateway'', ''microservice'']"

text \<open>\<^verbatim>\<open>sum(1 for kw in keywords if kw in task_lower)\<close> and \<^verbatim>\<open>any(kw in task_lower ...)\<close>.\<close>

definition keyword_matches :: "string list \<Rightarrow> string \<Rightarrow> nat" where
  "keyword_matches keywords task_lower =
     length (filter (\<lambda>kw. str_contains kw task_lower) keywords)"

definition any_keyword :: "string list \<Rightarrow> string \<Rightarrow> bool" where
  "any_keyword keywords task_lower = list_ex (\<lambda>kw. str_contains kw task_lower) keywords"

text \<open>
  \<^verbatim>\<open>re.search\<close> for a pattern \<^verbatim>\<open>\bLITERAL\b\<close>. At a position with the character \<open>prev\<close>
  before it (none at the start), the literal must follow, and on each side of it exactly
  one of the two neighbouring characters must be a word character (the start and the end
  of the text count as non-word). A pattern \<^verbatim>\<open>\b(a|b|c)\b\<close> matches when one of its
  alternatives does.
\<close>

definition is_word_opt :: "char option \<Rightarrow> bool" where
  "is_word_opt c = (case c of None \<Rightarrow> False | Some x \<Rightarrow> is_word_char x)"

definition head_opt :: "string \<Rightarrow> char option" where
  "head_opt s = (case s of [] \<Rightarrow> None | c # _ \<Rightarrow> Some c)"

definition bounded_here :: "char option \<Rightarrow> string \<Rightarrow> string \<Rightarrow> bool" where
  "bounded_here prev lit s =
     (lit \<noteq> [] \<and> starts_with lit s
      \<and> is_word_opt prev \<noteq> is_word_char (hd lit)
      \<and> is_word_char (last lit) \<noteq> is_word_opt (head_opt (drop (length lit) s)))"

fun search_bounded :: "char option \<Rightarrow> string \<Rightarrow> string \<Rightarrow> bool" where
  "search_bounded prev lit [] = False"
| "search_bounded prev lit (c # cs) =
     (bounded_here prev lit (c # cs) \<or> search_bounded (Some c) lit cs)"

definition re_search_words :: "string list \<Rightarrow> string \<Rightarrow> bool" where
  "re_search_words alternatives s = list_ex (\<lambda>lit. search_bounded None lit s) alternatives"

definition integration_patterns :: "(string list \<times> string) list" where
  "integration_patterns =
     [([''graphiti'', ''graphql'', ''apollo''], ''graphql''),
      ([''stripe'', ''paypal'', ''payment''], ''payment''),
      ([''auth0'', ''okta'', ''oauth'', ''jwt''], ''auth''),
      ([''aws'', ''gcp'', ''azure'', ''s3'', ''lambda''], ''cloud''),
      ([''redis'', ''memcached''], ''cache''),
      ([''postgres'', ''mysql'', ''mongodb'', ''database''], ''database''),
      ([''elasticsearch'', ''algolia''], ''search''),
      ([''kafka'', ''rabbitmq'', ''sqs''], ''queue''),
      ([''docker'', ''kubernetes'', ''k8s''], ''container''),
      ([''openai'', ''anthropic'', ''claude'', ''llm'', ''ai''], ''ai''),
      ([''sendgrid'', ''twilio''], ''messaging''),
      ([''github'', ''gitlab'', ''bitbucket''], ''vcs'')]"

text \<open>
  \<^verbatim>\<open>_detect_integrations\<close> collects the categories in a set and returns \<^verbatim>\<open>list(found)\<close>,
  whose order Python leaves open; here the categories come in the order of the patterns.
\<close>

definition detect_integrations :: "string \<Rightarrow> string list" where
  "detect_integrations task_lower =
     map snd (filter (\<lambda>(alternatives, category). re_search_words alternatives task_lower)
                integration_patterns)"

definition infra_patterns :: "string list" where
  "infra_patterns =
     [''docker'', ''kubernetes'', ''k8s'', ''deploy'', ''infrastructure'', ''ci/cd'',
      ''environment'', ''config'', ''.env'', ''database migration'', ''schema'', ''terraform'',
      ''ansible'', ''helm'']"

definition detect_infrastructure_changes :: "string \<Rightarrow> bool" where
  "detect_infrastructure_changes task_lower =
     list_ex (\<lambda>lit. search_bounded None lit task_lower) infra_patterns"

text \<open>
  The matches of \<^verbatim>\<open>\.(tsx?|jsx?|py|go|rs|java|rb|php|vue|svelte)\b\<close>: a dot, one of the
  extensions, and no word character after it. A match begins at a dot and goes on with
  letters only, so two matches never overlap and \<^verbatim>\<open>re.findall\<close> finds one at every position
  where the pattern matches.
\<close>

definition file_extensions :: "string list" where
  "file_extensions =
     [''tsx'', ''ts'', ''jsx'', ''js'', ''py'', ''go'', ''rs'', ''java'', ''rb'', ''php'', ''vue'',
      ''svelte'']"

definition file_mention_here :: "string \<Rightarrow> bool" where
  "file_mention_here s =
     (case s of
        [] \<Rightarrow> False
      | c # r \<Rightarrow>
          c = CHR ''.'' \<and>
          list_ex (\<lambda>ext. starts_with ext r \<and> \<not> is_word_opt (head_opt (drop (length ext) r)))
            file_extensions)"

fun count_file_mentions :: "string \<Rightarrow> nat" where
  "count_file_mentions [] = 0"
| "count_file_mentions (c # cs) =
     (if file_mention_here (c # cs) then 1 else 0) + count_file_mentions cs"

record Requirements =
  services_involved :: "string list"
  acceptance_criteria :: "string list"

text \<open>Of a \<^verbatim>\<open>ProjectIndex\<close> the analyzer reads the project type and the names of the services.\<close>

record ProjectIndex =
  project_type :: string
  services :: "string list"

definition estimate_files :: "string \<Rightarrow> nat" where
  "estimate_files task_lower =
     (if any_keyword [''single'', ''one file'', ''one component'', ''this file''] task_lower then 1
      else
        (let file_mentions = count_file_mentions task_lower in
         if file_mentions > 0 then max 1 file_mentions
         else if any_keyword SIMPLE_KEYWORDS task_lower then 2
         else if any_keyword STANDARD_KEYWORDS task_lower then 5
         else if any_keyword COMPLEX_KEYWORDS task_lower then 15
         else if any_keyword CRITICAL_KEYWORDS task_lower then 25
         else 5))"

definition mentioned_services :: "string list \<Rightarrow> string \<Rightarrow> nat" where
  "mentioned_services svcs task_lower =
     length (filter (\<lambda>svc. str_contains (lower svc) task_lower) svcs)"

definition estimate_services :: "ProjectIndex option \<Rightarrow> string \<Rightarrow> nat" where
  "estimate_services project_index task_lower =
     (let service_count = keyword_matches MULTI_SERVICE_KEYWORDS task_lower;
          fallback = max 1 (min service_count 5)
      in case project_index of
           None \<Rightarrow> fallback
         | Some idx \<Rightarrow>
             (if project_type idx = ''monorepo'' \<and> services idx \<noteq> []
                 \<and> mentioned_services (services idx) task_lower > 0
              then mentioned_services (services idx) task_lower
              else fallback))"

definition needs_research_of :: "string \<Rightarrow> string list \<Rightarrow> bool" where
  "needs_research_of task_lower integrations =
     (if any_keyword
           [''investigate'', ''research'', ''explore'', ''analyze'', ''understand'',
            ''figure out'', ''find out'', ''determine'', ''evaluate'', ''compare'',
            ''best practice'', ''how to'', ''should we'', ''recommendation''] task_lower
      then True
      else if length integrations > 0 then True
      else False)"

text \<open>Joining the reasons with \<^verbatim>\<open>"; "\<close>.\<close>

fun join_reasons :: "string list \<Rightarrow> string" where
  "join_reasons [] = ''''"
| "join_reasons [r] = r"
| "join_reasons (r # rs) = r @ ''; '' @ join_reasons rs"

text \<open>The values of the \<^verbatim>\<open>signals\<close> dict that \<^verbatim>\<open>_calculate_complexity\<close> reads back.\<close>

definition signal :: "string \<Rightarrow> (string \<times> json) list \<Rightarrow> int" where
  "signal k signals = (case dict_get k signals of Some (JNum n) \<Rightarrow> n | _ \<Rightarrow> 0)"

definition calculate_complexity ::
  "(string \<times> json) list \<Rightarrow> string list \<Rightarrow> bool \<Rightarrow> nat \<Rightarrow> nat \<Rightarrow> nat
     \<Rightarrow> Complexity \<times> rat \<times> string" where
  "calculate_complexity signals integrations infra_changes estimated_files estimated_services
      critical_matches =
     (if critical_matches \<ge> 2
         \<or> (infra_changes \<and> estimated_services \<ge> 3)
         \<or> (length integrations \<ge> 3 \<and> estimated_files \<ge> 15)
      then (Complexity_CRITICAL, 85 / 100,
            join_reasons
              ([''Critical change detected'']
               @ (if critical_matches > 0
                  then [str_of_nat critical_matches @ '' critical keyword(s)''] else [])
               @ (if infra_changes then [''infrastructure changes''] else [])))
      else if length integrations \<ge> 2
         \<or> infra_changes
         \<or> estimated_services \<ge> 3
         \<or> estimated_files \<ge> 10
         \<or> signal ''complex_keywords'' signals \<ge> 3
      then (Complexity_COMPLEX, 85 / 100,
            join_reasons
              ([str_of_nat (length integrations) @ '' integrations, ''
                @ str_of_nat estimated_services @ '' services, ''
                @ str_of_nat estimated_files @ '' files'']
               @ (if infra_changes then [''infrastructure changes detected''] else [])))
      else if estimated_files \<le> 2
         \<and> estimated_services = 1
         \<and> length integrations = 0
         \<and> \<not> infra_changes
         \<and> signal ''simple_keywords'' signals > 0
         \<and> signal ''complex_keywords'' signals = 0
      then (Complexity_SIMPLE, 9 / 10,
            join_reasons
              [''Single service, '' @ str_of_nat estimated_files @ '' file(s), no integrations''])
      else (Complexity_STANDARD, 75 / 100,
            join_reasons
              ([str_of_nat estimated_files @ '' files, '' @ str_of_nat estimated_services
                @ '' service(s)'']
               @ (if length integrations > 0
                  then [str_of_nat (length integrations) @ '' integration(s)''] else []))))"

record ComplexityAssessment =
  complexity :: Complexity
  confidence :: rat
  signals :: "(string \<times> json) list"
  reasoning :: string
  estimated_files :: nat
  estimated_services :: nat
  external_integrations :: "string list"
  infrastructure_changes :: bool
  needs_research :: bool
  needs_self_critique :: bool
  needs_impact_analysis :: bool

text \<open>
  \<^verbatim>\<open>ComplexityAnalyzer.analyze\<close>, for an analyzer built with \<open>project_index\<close>. The increment
  of \<^verbatim>\<open>complex_matches\<close> for more than five acceptance criteria comes after the count was
  stored in \<^verbatim>\<open>signals\<close> and is not read again, so it has no effect on the result.
\<close>

definition analyze ::
  "ProjectIndex option \<Rightarrow> string \<Rightarrow> Requirements option \<Rightarrow> ComplexityAssessment" where
  "analyze project_index task_description requirements =
     (let task_lower = lower task_description;
          critical_matches = keyword_matches CRITICAL_KEYWORDS task_lower;
          integrations = detect_integrations task_lower;
          infra_changes = detect_infrastructure_changes task_lower;
          files = estimate_files task_lower;
          services0 = estimate_services project_index task_lower;
          signals0 =
            [(''simple_keywords'', JNum (int (keyword_matches SIMPLE_KEYWORDS task_lower))),
             (''standard_keywords'', JNum (int (keyword_matches STANDARD_KEYWORDS task_lower))),
             (''complex_keywords'', JNum (int (keyword_matches COMPLEX_KEYWORDS task_lower))),
             (''critical_keywords'', JNum (int critical_matches)),
             (''multi_service_keywords'',
                JNum (int (keyword_matches MULTI_SERVICE_KEYWORDS task_lower))),
             (''external_integrations'', JNum (int (length integrations))),
             (''infrastructure_changes'', JBool infra_changes),
             (''estimated_files'', JNum (int files)),
             (''estimated_services'', JNum (int services0))];
          signals1 =
            (case requirements of
               None \<Rightarrow> signals0
             | Some req \<Rightarrow>
                 signals0
                 @ [(''explicit_services'', JNum (int (length (services_involved req))))]
                 @ (if length (acceptance_criteria req) > 5
                    then [(''acceptance_criteria_count'',
                           JNum (int (length (acceptance_criteria req))))]
                    else []));
          services1 =
            (case requirements of
               None \<Rightarrow> services0
             | Some req \<Rightarrow> max services0 (length (services_involved req)));
          (cplx, conf, reason) =
            calculate_complexity signals1 integrations infra_changes files services1
              critical_matches
      in \<lparr>complexity = cplx,
          confidence = conf,
          signals = signals1,
          reasoning = reason,
          estimated_files = files,
          estimated_services = services1,
          external_integrations = integrations,
          infrastructure_changes = infra_changes,
          needs_research = needs_research_of task_lower integrations,
          needs_self_critique = (cplx = Complexity_COMPLEX \<or> cplx = Complexity_CRITICAL),
          needs_impact_analysis =
            (files > 5 \<or> services1 > 1 \<or> length integrations > 0 \<or> infra_changes)\<rparr>)"

definition migrate_task :: string where
  "migrate_task =
     ''Migrate the Postgres schema and deploy a new Kubernetes service for authentication''"


subsection \<open>The migration scenario\<close>

lemma migrate_task_lower:
  "lower migrate_task =
     ''migrate the postgres schema and deploy a new kubernetes service for authentication''"
  by code_simp

lemma migrate_task_critical_matches:
  "keyword_matches CRITICAL_KEYWORDS (lower migrate_task) = 1"
  by code_simp

lemma migrate_task_integrations:
  "detect_integrations (lower migrate_task) = [''database'', ''container'']"
  by code_simp

lemma migrate_task_infra: "detect_infrastructure_changes (lower migrate_task)"
  by code_simp

lemma migrate_task_files: "estimate_files (lower migrate_task) = 5"
  by code_simp

lemma migrate_task_service_keywords:
  "keyword_matches MULTI_SERVICE_KEYWORDS (lower migrate_task) = 1"
  by code_simp

lemma migrate_task_services: "estimate_services None (lower migrate_task) = 1"
  by (simp add: estimate_services_def migrate_task_service_keywords)

lemma migrate_task_calculate:
  "fst (calculate_complexity sg [''database'', ''container''] True 5 1 1) = Complexity_COMPLEX"
  by (simp add: calculate_complexity_def)

lemma migrate_task_assessment:
  "complexity (analyze None migrate_task None) = Complexity_COMPLEX
   \<and> needs_impact_analysis (analyze None migrate_task None)
   \<and> infrastructure_changes (analyze None migrate_task None)
   \<and> external_integrations (analyze None migrate_task None) = [''database'', ''container'']
   \<and> estimated_files (analyze None migrate_task None) = 5
   \<and> estimated_services (analyze None migrate_task None) = 1"
  using migrate_task_calculate
  by (simp add: analyze_def Let_def split_beta migrate_task_critical_matches
      migrate_task_integrations migrate_task_infra migrate_task_files migrate_task_services)

text \<open>
  The expectation that the task is classified \<^verbatim>\<open>critical\<close> with \<^verbatim>\<open>auth\<close> among the
  integrations fails: one critical keyword (\<^verbatim>\<open>schema\<close>) is matched where two are needed, one
  service is estimated where three are needed, two integrations are detected where three are
  needed, and the word \<^verbatim>\<open>authentication\<close> is none of \<^verbatim>\<open>auth0\<close>, \<^verbatim>\<open>okta\<close>, \<^verbatim>\<open>oauth\<close>, \<^verbatim>\<open>jwt\<close>.
\<close>

theorem migrate_task_not_critical_counterexample:
  "complexity (analyze None
      ''Migrate the Postgres schema and deploy a new Kubernetes service for authentication''
      None) \<noteq> Complexity_CRITICAL
   \<and> ''auth'' \<notin> set (external_integrations (analyze None
      ''Migrate the Postgres schema and deploy a new Kubernetes service for authentication''
      None))"
  using migrate_task_assessment by (simp add: migrate_task_def)

text \<open>
  Claim C5, as the code has it. For the task description \<^verbatim>\<open>Migrate the Postgres schema and
  deploy a new Kubernetes service for authentication\<close>, an analyzer without project index,
  called without requirements, returns \<^verbatim>\<open>complexity="complex"\<close>,
  \<^verbatim>\<open>needs_impact_analysis=true\<close>, \<^verbatim>\<open>infrastructure_changes=true\<close>, and the external
  integrations \<^verbatim>\<open>database\<close> and \<^verbatim>\<open>container\<close>, without \<^verbatim>\<open>auth\<close>.
\<close>

theorem migrate_task_is_complex:
  "complexity (analyze None
      ''Migrate the Postgres schema and deploy a new Kubernetes service for authentication''
      None) = Complexity_COMPLEX
   \<and> needs_impact_analysis (analyze None
      ''Migrate the Postgres schema and deploy a new Kubernetes service for authentication''
      None)
   \<and> infrastructure_changes (analyze None
      ''Migrate the Postgres schema and deploy a new Kubernetes service for authentication''
      None)
   \<and> set (external_integrations (analyze None
      ''Migrate the Postgres schema and deploy a new Kubernetes service for authentication''
      None)) = {''database'', ''container''}"
  using migrate_task_assessment by (simp add: migrate_task_def insert_commute)

section \<open>QA fixer (qa/fixer.py)\<close>

subsection \<open>Text operations\<close>

text \<open>
  \<^verbatim>\<open>str.splitlines\<close> on ASCII text: a line ends at \<^verbatim>\<open>\n\<close>, \<^verbatim>\<open>\r\<close>, \<^verbatim>\<open>\r\n\<close>, \<^verbatim>\<open>\v\<close>, \<^verbatim>\<open>\f\<close> or
  one of the separators \<^verbatim>\<open>\x1c\<close>, \<^verbatim>\<open>\x1d\<close>, \<^verbatim>\<open>\x1e\<close>, and no empty line is reported after the
  last line end.
\<close>

definition is_linebreak :: "char \<Rightarrow> bool" where
  "is_linebreak c = (let n = (of_char c :: nat) in (10 \<le> n \<and> n \<le> 13) \<or> (28 \<le> n \<and> n \<le> 30))"

fun splitlines_from :: "string \<Rightarrow> string \<Rightarrow> string list" where
  "splitlines_from cur [] = (if cur = [] then [] else [cur])"
| "splitlines_from cur [c] = (if is_linebreak c then [cur] else [cur @ [c]])"
| "splitlines_from cur (c # d # cs) =
     (if c = CHR 0x0D \<and> d = CHR 0x0A then cur # splitlines_from [] cs
      else if is_linebreak c then cur # splitlines_from [] (d # cs)
      else splitlines_from (cur @ [c]) (d # cs))"

definition splitlines :: "string \<Rightarrow> string list" where
  "splitlines s = splitlines_from [] s"

text \<open>\<^verbatim>\<open>"\n".join(lines)\<close>.\<close>

fun join_lines :: "string list \<Rightarrow> string" where
  "join_lines [] = ''''"
| "join_lines [l] = l"
| "join_lines (l # ls) = l @ newline @ join_lines ls"

definition lstrip :: "string \<Rightarrow> string" where
  "lstrip s = dropWhile is_space s"

definition upper_char :: "char \<Rightarrow> char" where
  "upper_char c =
     (let n = (of_char c :: nat) in if 97 \<le> n \<and> n \<le> 122 then char_of (n - 32) else c)"

definition upper :: "string \<Rightarrow> string" where
  "upper s = map upper_char s"

text \<open>\<^verbatim>\<open>s.replace(old, new)\<close> for a non-empty \<open>old\<close>: every occurrence, from the left.\<close>

function str_replace :: "string \<Rightarrow> string \<Rightarrow> string \<Rightarrow> string" where
  "str_replace old new s =
     (if old = [] \<or> s = [] then s
      else if starts_with old s then new @ str_replace old new (drop (length old) s)
      else hd s # str_replace old new (tl s))"
  by pat_completeness auto
termination
  by (relation "measure (\<lambda>(old, new, s). length s)") auto

declare str_replace.simps [simp del]

text \<open>
  \<^verbatim>\<open>re.search(r"(\w+)\s*=", s)\<close>, group 1: the first run of word characters that is
  followed, after optional white space, by \<^verbatim>\<open>=\<close>. A run that is not so followed offers no
  match at any of its positions.
\<close>

function var_match :: "string \<Rightarrow> string option" where
  "var_match s =
     (case s of
        [] \<Rightarrow> None
      | c # cs \<Rightarrow>
          (if is_word_char c
           then (case dropWhile is_space (dropWhile is_word_char s) of
                   e # _ \<Rightarrow> (if e = CHR ''='' then Some (takeWhile is_word_char s)
                             else var_match (dropWhile is_word_char s))
                 | [] \<Rightarrow> var_match (dropWhile is_word_char s))
           else var_match cs))"
  by pat_completeness auto
termination
proof (relation "measure length")
  show "wf (measure length)" by simp
next
  fix s :: string and c cs
  assume "s = c # cs" "is_word_char c"
  then show "(dropWhile is_word_char s, s) \<in> measure length"
    using length_dropWhile_le [of is_word_char cs] by simp
next
  fix s :: string and c cs e es
  assume "s = c # cs" "is_word_char c"
  then show "(dropWhile is_word_char s, s) \<in> measure length"
    using length_dropWhile_le [of is_word_char cs] by simp
next
  fix s :: string and c cs
  assume "s = c # cs"
  then show "(cs, s) \<in> measure length" by simp
qed

declare var_match.simps [simp del]

text \<open>
  \<^verbatim>\<open>re.search(r"except\s+(\w+)", s)\<close>, group 1: after the first \<^verbatim>\<open>except\<close> that is followed by
  white space and then a word character, the run of word characters.
\<close>

definition exc_here :: "string \<Rightarrow> string option" where
  "exc_here s =
     (if starts_with ''except'' s
      then (case drop 6 s of
              [] \<Rightarrow> None
            | w # r \<Rightarrow>
                (if is_space w
                 then (case dropWhile is_space r of
                         [] \<Rightarrow> None
                       | x # _ \<Rightarrow>
                           (if is_word_char x
                            then Some (takeWhile is_word_char (dropWhile is_space r))
                            else None))
                 else None))
      else None)"

fun exc_match :: "string \<Rightarrow> string option" where
  "exc_match [] = None"
| "exc_match (c # cs) =
     (case exc_here (c # cs) of Some g \<Rightarrow> Some g | None \<Rightarrow> exc_match cs)"

subsection \<open>Fixes\<close>

datatype FixStrategy = REPLACE | INSERT | DELETE | REFACTOR | MANUAL

text \<open>
  What \<^verbatim>\<open>fix.error\<close> is set to: the low-confidence text with its two numbers, the
  file-not-found text with its path, or the text of an exception.
\<close>

datatype FixError =
  ConfidenceTooLow rat rat
| FileNotFound string
| ExceptionText string

record Fix =
  fix_issue :: QAIssue
  fix_strategy :: FixStrategy
  fix_description :: string
  fix_file_path :: "string option"
  fix_line_number :: "nat option"
  original_code :: "string option"
  fixed_code :: "string option"
  fix_confidence :: rat
  applied :: bool
  fix_error :: "FixError option"

record FixResult =
  result_success :: bool
  fixes_applied :: "Fix list"
  fixes_failed :: "Fix list"
  fixes_skipped :: "Fix list"
  result_ready_for_revalidation :: bool
  result_message :: string

text \<open>
  \<^verbatim>\<open>FixGenerator._fix_patterns\<close>: for an issue key the strategy, the description and the
  template, where there is one.
\<close>

definition fix_patterns :: "(string \<times> FixStrategy \<times> string \<times> string option) list" where
  "fix_patterns =
     [(''hardcoded_secrets'', REPLACE, ''Move secret to environment variable'',
         Some (''os.environ.get('' @ [CHR 0x22] @ ''{var_name}'' @ [CHR 0x22] @ '', ''
               @ [CHR 0x22, CHR 0x22] @ '')'')),
      (''debug_statements'', DELETE, ''Remove debug statement'', None),
      (''empty_except'', REPLACE, ''Add proper exception handling'',
         Some (''except {exception} as e:'' @ newline @ ''    logger.error(f'' @ quote
               @ ''Error: {e}'' @ quote @ '')'')),
      (''eval_usage'', REFACTOR, ''Replace eval with safer alternative'', None),
      (''todo_comments'', MANUAL, ''Review and resolve TODO comment'', None),
      (''any_type'', REFACTOR, ''Replace 'any' with proper type'', None)]"

text \<open>
  The repository's files: a dict from the path relative to the repository root to the
  text of the file. Every file of the dict can be read and written.
\<close>

type_synonym files = "(string \<times> string) list"

text \<open>\<^verbatim>\<open>location.rsplit(":", 1)\<close>: the parts before and after the last colon.\<close>

definition rsplit_colon :: "string \<Rightarrow> string list" where
  "rsplit_colon s =
     (if CHR '':'' \<in> set s
      then [rev (tl (dropWhile (\<lambda>c. c \<noteq> CHR '':'') (rev s))),
            rev (takeWhile (\<lambda>c. c \<noteq> CHR '':'') (rev s))]
      else [s])"

text \<open>\<^verbatim>\<open>int(s)\<close> for a string of decimal digits.\<close>

definition nat_of_digits :: "string \<Rightarrow> nat" where
  "nat_of_digits s = foldl (\<lambda>n c. 10 * n + (of_char c - 48)) 0 s"

definition parse_location :: "string \<Rightarrow> string option \<times> nat option" where
  "parse_location loc =
     (if loc = [] then (None, None)
      else
        (let parts = rsplit_colon loc in
         (Some (hd parts),
          (if length parts > 1 \<and> parts ! 1 \<noteq> [] \<and> list_all is_digit (parts ! 1)
           then Some (nat_of_digits (parts ! 1)) else None))))"

definition read_file_line :: "files \<Rightarrow> string \<Rightarrow> nat \<Rightarrow> string option" where
  "read_file_line fs file_path line_number =
     (case dict_get file_path fs of
        None \<Rightarrow> None
      | Some content \<Rightarrow>
          (let lines = splitlines content in
           if 0 < line_number \<and> line_number \<le> length lines
           then Some (lines ! (line_number - 1)) else None))"

definition apply_fix_template :: "string \<Rightarrow> string \<Rightarrow> string" where
  "apply_fix_template template code =
     (let result1 = (case var_match code of
                       Some v \<Rightarrow> str_replace ''{var_name}'' (upper v) template
                     | None \<Rightarrow> template)
      in case exc_match code of
           Some x \<Rightarrow> str_replace ''{exception}'' x result1
         | None \<Rightarrow> str_replace ''{exception}'' ''Exception'' result1)"

text \<open>
  \<^verbatim>\<open>_calculate_confidence\<close>. Each product has at most two decimals, so \<^verbatim>\<open>round(..., 2)\<close>
  returns it.
\<close>

definition calculate_confidence :: "QAIssue \<Rightarrow> FixStrategy \<Rightarrow> rat" where
  "calculate_confidence i strat =
     (let base_confidence = (if strat = MANUAL then 3 / 10
                             else if strat = REFACTOR then 5 / 10
                             else 8 / 10)
      in if severity i = SEV_CRITICAL then base_confidence * (7 / 10)
         else if severity i = SEV_HIGH then base_confidence * (8 / 10)
         else base_confidence)"

definition truthy_str :: "string option \<Rightarrow> bool" where
  "truthy_str x = (case x of None \<Rightarrow> False | Some s \<Rightarrow> s \<noteq> [])"

definition truthy_nat :: "nat option \<Rightarrow> bool" where
  "truthy_nat x = (case x of None \<Rightarrow> False | Some n \<Rightarrow> n \<noteq> 0)"

definition generate_fix :: "files \<Rightarrow> QAIssue \<Rightarrow> Fix" where
  "generate_fix fs i =
     (let issue_key = str_replace '' '' ''_'' (lower (title i));
          pattern = dict_get issue_key fix_patterns;
          strat = (case pattern of Some (s, d, t) \<Rightarrow> s | None \<Rightarrow> MANUAL);
          descr = (case pattern of Some (s, d, t) \<Rightarrow> d | None \<Rightarrow> ''Fix '' @ title i);
          (file_path, line_number) =
             parse_location (case issue_location i of None \<Rightarrow> '''' | Some l \<Rightarrow> l);
          original = (if truthy_str file_path \<and> truthy_nat line_number
                      then read_file_line fs (the file_path) (the line_number) else None);
          fix_template = (case pattern of Some (s, d, t) \<Rightarrow> t | None \<Rightarrow> None);
          fixed = (if truthy_str fix_template \<and> truthy_str original
                   then Some (apply_fix_template (the fix_template) (the original)) else None)
      in \<lparr>fix_issue = i, fix_strategy = strat, fix_description = descr,
          fix_file_path = file_path, fix_line_number = line_number,
          original_code = original, fixed_code = fixed,
          fix_confidence = calculate_confidence i strat,
          applied = False, fix_error = None\<rparr>)"

subsection \<open>Applying fixes\<close>

text \<open>\<^verbatim>\<open>lines.pop(i)\<close> and \<^verbatim>\<open>lines.insert(i, x)\<close> for an index within the list.\<close>

definition list_pop :: "nat \<Rightarrow> 'a list \<Rightarrow> 'a list" where
  "list_pop i xs = take i xs @ drop (Suc i) xs"

definition list_insert :: "nat \<Rightarrow> 'a \<Rightarrow> 'a list \<Rightarrow> 'a list" where
  "list_insert i x xs = take i xs @ [x] @ drop i xs"

definition with_final_newline :: "string \<Rightarrow> string" where
  "with_final_newline s = (if s \<noteq> [] \<and> last s = CHR 0x0A then s else s @ newline)"

text \<open>
  \<^verbatim>\<open>Fixer._apply_fix\<close>: whether the fix was applied, the fix with \<^verbatim>\<open>applied\<close> or \<^verbatim>\<open>error\<close>
  set, and the files.
\<close>

definition apply_fix :: "Fix \<Rightarrow> files \<Rightarrow> bool \<times> Fix \<times> files" where
  "apply_fix fix fs =
     (if \<not> truthy_str (fix_file_path fix) then (False, fix, fs)
      else if fix_strategy fix \<noteq> DELETE \<and> \<not> truthy_str (fixed_code fix) then (False, fix, fs)
      else if fix_strategy fix = MANUAL then (False, fix, fs)
      else
        (case dict_get (the (fix_file_path fix)) fs of
           None \<Rightarrow>
             (False, fix\<lparr>fix_error := Some (FileNotFound (the (fix_file_path fix)))\<rparr>, fs)
         | Some content \<Rightarrow>
             (let lines = splitlines content;
                  n = (case fix_line_number fix of None \<Rightarrow> 0 | Some k \<Rightarrow> k);
                  lines' =
                    (if fix_strategy fix = REPLACE \<and> truthy_nat (fix_line_number fix)
                     then (if 0 < n \<and> n \<le> length lines
                           then (let original = lines ! (n - 1);
                                     indent = length original - length (lstrip original)
                                 in lines[n - 1 := replicate indent CHR '' ''
                                                    @ lstrip (the (fixed_code fix))])
                           else lines)
                     else if fix_strategy fix = DELETE \<and> truthy_nat (fix_line_number fix)
                     then (if 0 < n \<and> n \<le> length lines then list_pop (n - 1) lines else lines)
                     else if fix_strategy fix = INSERT \<and> truthy_nat (fix_line_number fix)
                     then (if n \<le> length lines
                           then list_insert n (the (fixed_code fix)) lines else lines)
                     else lines)
              in (True, fix\<lparr>applied := True\<rparr>,
                  dict_set (the (fix_file_path fix)) (with_final_newline (join_lines lines')) fs))))"

text \<open>
  The spec directory, as far as the fixer reads and writes it: the sign-off stored in
  \<^verbatim>\<open>implementation_plan.json\<close> under \<^verbatim>\<open>qa_signoff\<close> (none when the plan or the key is missing),
  and \<^verbatim>\<open>QA_FIX_REQUEST.md\<close>, which stands here as the list of fixes the document is written
  from (none when the file does not exist).
\<close>

record spec_dir_state =
  stored_signoff :: "QASignoff option"
  fix_request :: "Fix list option"

text \<open>The loop over the generated fixes in \<^verbatim>\<open>Fixer.fix_issues\<close>.\<close>

fun fix_loop :: "bool \<Rightarrow> rat \<Rightarrow> Fix list \<Rightarrow> FixResult \<Rightarrow> files \<Rightarrow> FixResult \<times> files" where
  "fix_loop auto_apply min_confidence [] result fs = (result, fs)"
| "fix_loop auto_apply min_confidence (fix # rest) result fs =
     (if fix_confidence fix < min_confidence
      then fix_loop auto_apply min_confidence rest
             (result\<lparr>fixes_skipped := fixes_skipped result
                 @ [fix\<lparr>fix_error := Some (ConfidenceTooLow (fix_confidence fix) min_confidence)\<rparr>]\<rparr>)
             fs
      else if fix_strategy fix = MANUAL
      then fix_loop auto_apply min_confidence rest
             (result\<lparr>fixes_skipped := fixes_skipped result @ [fix]\<rparr>) fs
      else if auto_apply \<and> truthy_str (fixed_code fix)
      then (case apply_fix fix fs of
              (ok, fix', fs') \<Rightarrow>
                (if ok
                 then fix_loop auto_apply min_confidence rest
                        (result\<lparr>fixes_applied := fixes_applied result @ [fix']\<rparr>) fs'
                 else fix_loop auto_apply min_confidence rest
                        (result\<lparr>fixes_failed := fixes_failed result @ [fix']\<rparr>) fs'))
      else fix_loop auto_apply min_confidence rest
             (result\<lparr>fixes_skipped := fixes_skipped result @ [fix]\<rparr>) fs)"

text \<open>
  \<^verbatim>\<open>Fixer.fix_issues\<close> for a fixer with a spec directory: the result, the files and the
  spec directory afterwards.
\<close>

definition fix_issues ::
  "bool \<Rightarrow> rat \<Rightarrow> QAIssue list \<Rightarrow> files \<Rightarrow> spec_dir_state
     \<Rightarrow> FixResult \<times> files \<times> spec_dir_state" where
  "fix_issues auto_apply min_confidence issue_list fs sd =
     (let fixes = map (generate_fix fs) issue_list;
          (result, fs') =
             fix_loop auto_apply min_confidence fixes
               \<lparr>result_success = True, fixes_applied = [], fixes_failed = [],
                fixes_skipped = [], result_ready_for_revalidation = False,
                result_message = ''''\<rparr> fs;
          non_applied = fixes_failed result @ fixes_skipped result;
          sd' = (if non_applied \<noteq> [] then sd\<lparr>fix_request := Some non_applied\<rparr> else sd);
          critical_failed =
             filter (\<lambda>f. severity (fix_issue f) = SEV_CRITICAL) (fixes_failed result)
      in if critical_failed \<noteq> []
         then (result\<lparr>result_success := False,
                 result_message := ''Failed to fix '' @ str_of_nat (length critical_failed)
                                   @ '' critical issues''\<rparr>, fs', sd')
         else (result\<lparr>result_ready_for_revalidation := True,
                 result_message :=
                   ''Applied '' @ str_of_nat (length (fixes_applied result)) @ '' fixes, ''
                   @ str_of_nat (length (fixes_skipped result)) @ '' skipped, ''
                   @ str_of_nat (length (fixes_failed result)) @ '' failed''\<rparr>, fs', sd'))"

text \<open>
  \<^verbatim>\<open>run_qa_fixer\<close>: the status, the result, the files and the spec directory afterwards. The
  fixer it creates has the default \<^verbatim>\<open>min_confidence=0.7\<close>.
\<close>

definition run_qa_fixer ::
  "bool \<Rightarrow> files \<Rightarrow> spec_dir_state \<Rightarrow> string \<times> FixResult \<times> files \<times> spec_dir_state" where
  "run_qa_fixer auto_apply fs sd =
     (case stored_signoff sd of
        None \<Rightarrow>
          (''error'',
           \<lparr>result_success = False, fixes_applied = [], fixes_failed = [], fixes_skipped = [],
            result_ready_for_revalidation = False, result_message = ''No issues found to fix''\<rparr>,
           fs, sd)
      | Some signoff \<Rightarrow>
          (if issues_found signoff = []
           then (''error'',
                 \<lparr>result_success = False, fixes_applied = [], fixes_failed = [],
                  fixes_skipped = [], result_ready_for_revalidation = False,
                  result_message = ''No issues found to fix''\<rparr>,
                 fs, sd)
           else
             (case fix_issues auto_apply (7 / 10) (issues_found signoff) fs sd of
                (result, fs', sd') \<Rightarrow>
                  (if result_ready_for_revalidation result
                   then (''fixed'', result, fs',
                         sd'\<lparr>stored_signoff :=
                               Some \<lparr>status = FIXES_APPLIED, qa_session = qa_session signoff,
                                     issues_found = [], test_results = None,
                                     verified_by = ''qa_agent'',
                                     ready_for_revalidation = True\<rparr>\<rparr>)
                   else (''error'', result, fs', sd')))))"


subsection \<open>What the loop leaves alone\<close>











lemma fix_issues_signoff:
  "stored_signoff (snd (snd (fix_issues a m issue_list fs sd))) = stored_signoff sd"
  by (simp add: fix_issues_def Let_def split_beta)


subsection \<open>The debug-statement scenario\<close>

text \<open>
  A file \<^verbatim>\<open>src/bad.py\<close> whose line 3 is \<^verbatim>\<open>print("x")\<close>, the low-severity issue
  \<^verbatim>\<open>Debug Statements\<close> at \<^verbatim>\<open>src/bad.py:3\<close>, and a spec directory whose sign-off holds that issue.
\<close>

definition bad_py :: string where
  "bad_py =
     ''import os'' @ newline @ newline
     @ ''print('' @ [CHR 0x22] @ ''x'' @ [CHR 0x22] @ '')'' @ newline
     @ ''os.getcwd()'' @ newline"

definition debug_statements_issue :: QAIssue where
  "debug_statements_issue =
     \<lparr>title = ''Debug Statements'', severity = SEV_LOW,
      issue_description = ''Check for debug statements left in code'',
      issue_location = Some ''src/bad.py:3'', fix_required = None, category = ''style''\<rparr>"

definition debug_statements_spec_dir :: spec_dir_state where
  "debug_statements_spec_dir =
     \<lparr>stored_signoff =
        Some \<lparr>status = REJECTED, qa_session = 1, issues_found = [debug_statements_issue],
              test_results = None, verified_by = ''qa_agent'', ready_for_revalidation = False\<rparr>,
      fix_request = None\<rparr>"

text \<open>
  Claim C4 on the code. With \<^verbatim>\<open>auto_apply=true\<close> and \<^verbatim>\<open>min_confidence=0.7\<close> the generated fix
  has the strategy \<^verbatim>\<open>DELETE\<close>, confidence 0.8 and no \<^verbatim>\<open>fixed_code\<close>. \<^verbatim>\<open>fix_issues\<close> applies a fix
  only when \<^verbatim>\<open>fix.fixed_code\<close> is truthy, so the fix is skipped, no fix is applied and the file
  keeps its line 3; the sign-off is nevertheless overwritten with \<^verbatim>\<open>fixes_applied\<close> and
  \<^verbatim>\<open>ready_for_qa_revalidation=true\<close>. \<^verbatim>\<open>_apply_fix\<close> itself, given the same fix, deletes the
  line.
\<close>

theorem debug_statement_fix_is_skipped:
  "read_file_line [(''src/bad.py'', bad_py)] ''src/bad.py'' 3
     = Some (''print('' @ [CHR 0x22] @ ''x'' @ [CHR 0x22] @ '')'')
   \<and> (case fix_issues True (7 / 10) [debug_statements_issue] [(''src/bad.py'', bad_py)]
             debug_statements_spec_dir of
         (result, fs', sd') \<Rightarrow>
           fixes_applied result = []
           \<and> map fix_strategy (fixes_skipped result) = [DELETE]
           \<and> map fixed_code (fixes_skipped result) = [None]
           \<and> fs' = [(''src/bad.py'', bad_py)])
   \<and> (case run_qa_fixer True [(''src/bad.py'', bad_py)] debug_statements_spec_dir of
         (st, result, fs', sd') \<Rightarrow>
           st = ''fixed''
           \<and> fixes_applied result = []
           \<and> read_file_line fs' ''src/bad.py'' 3
                = Some (''print('' @ [CHR 0x22] @ ''x'' @ [CHR 0x22] @ '')'')
           \<and> stored_signoff sd'
                = Some \<lparr>status = FIXES_APPLIED, qa_session = 1, issues_found = [],
                        test_results = None, verified_by = ''qa_agent'',
                        ready_for_revalidation = True\<rparr>)
   \<and> (case apply_fix (generate_fix [(''src/bad.py'', bad_py)] debug_statements_issue)
             [(''src/bad.py'', bad_py)] of
         (ok, fx, fs') \<Rightarrow>
           ok \<and> fs' = [(''src/bad.py'', ''import os'' @ newline @ newline @ ''os.getcwd()'' @ newline)])"
  by code_simp

subsection \<open>Ready for revalidation\<close>





section \<open>QA review: test runner and verdict (qa/reviewer.py)\<close>

record ReviewResult =
  passed :: bool
  issues :: "QAIssue list"
  warnings :: "string list"
  files_reviewed :: nat
  checks_performed :: nat
  breaking_changes_detected :: "string list"

text \<open>The issue \<^verbatim>\<open>CodeReviewer.review\<close> appends for each detected breaking change.\<close>

definition breaking_change_issue :: "string \<Rightarrow> QAIssue" where
  "breaking_change_issue bc =
     \<lparr>title = ''Breaking Change Detected'', severity = SEV_HIGH, issue_description = bc,
      issue_location = None, fix_required = None, category = ''breaking_change''\<rparr>"

text \<open>
  \<^verbatim>\<open>CodeReviewer.review\<close>. The static checks, the spec-alignment check and the impact
  analyzer are collaborators whose findings are arguments: \<open>file_issues\<close> holds the result
  of \<^verbatim>\<open>review_file\<close> for each reviewed file, \<open>alignment_issues\<close> the result of
  \<^verbatim>\<open>check_spec_alignment\<close>, \<open>breaking_changes\<close> the result of \<^verbatim>\<open>check_breaking_changes\<close>;
  \<open>n_checks\<close> is \<^verbatim>\<open>len(self.checks)\<close>. An \<^verbatim>\<open>Optional\<close> argument is truthy when it is present
  and not empty.
\<close>

definition truthy_opt :: "'a list option \<Rightarrow> bool" where
  "truthy_opt x = (case x of None \<Rightarrow> False | Some v \<Rightarrow> v \<noteq> [])"

definition review ::
  "QAIssue list list \<Rightarrow> nat \<Rightarrow> string list option \<Rightarrow> string option \<Rightarrow> string
     \<Rightarrow> QAIssue list \<Rightarrow> string list \<Rightarrow> ReviewResult" where
  "review file_issues n_checks changed_files spec_content task_description
      alignment_issues breaking_changes =
     (let issues1 = concat file_issues;
          issues2 = (if truthy_opt spec_content \<and> truthy_opt changed_files
                     then issues1 @ alignment_issues else issues1);
          god_mode = (truthy_opt changed_files \<and> task_description \<noteq> []);
          issues3 = (if god_mode then issues2 @ map breaking_change_issue breaking_changes
                     else issues2);
          critical_issues = filter (\<lambda>i. severity i = SEV_CRITICAL) issues3;
          high_issues = filter (\<lambda>i. severity i = SEV_HIGH) issues3
      in \<lparr>passed = (if critical_issues \<noteq> [] then False
                    else if length high_issues \<ge> 3 then False
                    else True),
          issues = issues3,
          warnings = [],
          files_reviewed = length file_issues,
          checks_performed = length file_issues * n_checks,
          breaking_changes_detected = (if god_mode then breaking_changes else [])\<rparr>)"

subsection \<open>The patterns of the test runner\<close>

text \<open>
  The three patterns of \<^verbatim>\<open>TestRunner.run_tests\<close> are sequences of four kinds of items: a
  literal text, the greedy repetition \<^verbatim>\<open>c+\<close> of a character class, the same as a capturing
  group \<^verbatim>\<open>(c+)\<close>, and the lazy repetition \<^verbatim>\<open>c*?\<close>. \<^verbatim>\<open>re\<close> matches by backtracking. A greedy
  repetition first takes the longest run of the class and gives back one character at a time;
  a lazy one first takes nothing and takes one more character at a time; the first choice
  that lets the rest of the pattern match is the match. The groups are collected in the
  order of the pattern.
\<close>

datatype re_item =
  Re_Lit string
| Re_Plus "char \<Rightarrow> bool"
| Re_Group_Plus "char \<Rightarrow> bool"
| Re_Lazy_Star "char \<Rightarrow> bool"

function re_match :: "re_item list \<Rightarrow> string \<Rightarrow> string list \<Rightarrow> string list option"
  and re_greedy ::
    "re_item list \<Rightarrow> bool \<Rightarrow> string \<Rightarrow> nat \<Rightarrow> string list \<Rightarrow> string list option"
  and re_lazy ::
    "re_item list \<Rightarrow> string \<Rightarrow> nat \<Rightarrow> nat \<Rightarrow> string list \<Rightarrow> string list option"
where
  "re_match [] s groups = Some groups"
| "re_match (Re_Lit l # items) s groups =
     (if starts_with l s then re_match items (drop (length l) s) groups else None)"
| "re_match (Re_Plus c # items) s groups =
     re_greedy items False s (length (takeWhile c s)) groups"
| "re_match (Re_Group_Plus c # items) s groups =
     re_greedy items True s (length (takeWhile c s)) groups"
| "re_match (Re_Lazy_Star c # items) s groups =
     re_lazy items s 0 (length (takeWhile c s)) groups"
| "re_greedy items capture s n groups =
     (if n = 0 then None
      else (case re_match items (drop n s) (if capture then groups @ [take n s] else groups) of
              Some g \<Rightarrow> Some g
            | None \<Rightarrow> re_greedy items capture s (n - 1) groups))"
| "re_lazy items s k n groups =
     (if n < k then None
      else (case re_match items (drop k s) groups of
              Some g \<Rightarrow> Some g
            | None \<Rightarrow> re_lazy items s (k + 1) n groups))"
  by pat_completeness auto
termination
  by (relation "inv_image (less_than <*lex*> less_than)
        (\<lambda>x. case x of
                Inl (items, s, groups) \<Rightarrow> (2 * length items, 0)
              | Inr (Inl (items, capture, s, n, groups)) \<Rightarrow> (2 * length items + 1, n)
              | Inr (Inr (items, s, k, n, groups)) \<Rightarrow> (2 * length items + 1, n + 1 - k))")
    auto

declare re_greedy.simps [simp del]
declare re_lazy.simps [simp del]

text \<open>\<^verbatim>\<open>re.search\<close>: the match at the leftmost position that has one; its groups.\<close>

fun re_search :: "re_item list \<Rightarrow> string \<Rightarrow> string list option" where
  "re_search items [] = re_match items [] []"
| "re_search items (c # cs) =
     (case re_match items (c # cs) [] of
        Some g \<Rightarrow> Some g
      | None \<Rightarrow> re_search items cs)"

text \<open>\<^verbatim>\<open>(\d+) passed\<close> and \<^verbatim>\<open>(\d+) failed\<close>, for the output of pytest.\<close>

definition passed_pattern :: "re_item list" where
  "passed_pattern = [Re_Group_Plus is_digit, Re_Lit '' passed'']"

definition failed_pattern :: "re_item list" where
  "failed_pattern = [Re_Group_Plus is_digit, Re_Lit '' failed'']"

text \<open>
  \<^verbatim>\<open>Tests:\s+(\d+)\s+passed.*?(\d+)\s+total\<close>, for the output of Jest and Vitest. Without the
  flag \<^verbatim>\<open>DOTALL\<close> the dot is every character but the line feed.
\<close>

definition tests_pattern :: "re_item list" where
  "tests_pattern =
     [Re_Lit ''Tests:'', Re_Plus is_space, Re_Group_Plus is_digit, Re_Plus is_space,
      Re_Lit ''passed'', Re_Lazy_Star (\<lambda>c. c \<noteq> CHR 0x0A), Re_Group_Plus is_digit,
      Re_Plus is_space, Re_Lit ''total'']"

text \<open>\<^verbatim>\<open>int(s)\<close> for a run of decimal digits.\<close>

definition int_of_digits :: "string \<Rightarrow> int" where
  "int_of_digits ds = foldl (\<lambda>acc c. 10 * acc + (int (of_char c) - 48)) 0 ds"

text \<open>\<^verbatim>\<open>s.count(sub)\<close>: the occurrences of \<open>sub\<close> in \<open>s\<close> that do not overlap, from the left.\<close>

function str_count :: "string \<Rightarrow> string \<Rightarrow> nat" where
  "str_count sub s =
     (if sub = [] then length s + 1
      else if s = [] then 0
      else if starts_with sub s then 1 + str_count sub (drop (length sub) s)
      else str_count sub (tl s))"
  by pat_completeness auto
termination
  by (relation "measure (\<lambda>(sub, s). length s)") auto

declare str_count.simps [simp del]

subsection \<open>The test runner\<close>

text \<open>
  What \<^verbatim>\<open>TestRunner\<close> reads of the repository root: whether \<^verbatim>\<open>pytest.ini\<close> exists, the files
  \<^verbatim>\<open>pyproject.toml\<close> and \<^verbatim>\<open>package.json\<close>, and the paths \<^verbatim>\<open>glob("**/*_test.go")\<close> finds. A file
  is absent, or it exists and \<^verbatim>\<open>read_text\<close> returns its text, or it exists and \<^verbatim>\<open>read_text\<close>
  raises (a directory of that name, bytes that do not decode); the text of the exception is
  kept.
\<close>

datatype repo_file = File_Absent | File_Text string | File_Unreadable string

record test_repo =
  pytest_ini_exists :: bool
  pyproject_toml :: repo_file
  package_json :: repo_file
  go_test_files :: "string list"

text \<open>
  \<^verbatim>\<open>_detect_test_framework\<close>, in the order of the source: pytest, then the frameworks named in
  \<^verbatim>\<open>package.json\<close>, then Go. \<open>Inl\<close> is an exception of \<^verbatim>\<open>read_text\<close>, which the method does not
  catch.
\<close>

definition detect_go :: "test_repo \<Rightarrow> string + string option" where
  "detect_go repo = Inr (if go_test_files repo \<noteq> [] then Some ''go'' else None)"

definition detect_package_json :: "test_repo \<Rightarrow> string + string option" where
  "detect_package_json repo =
     (case package_json repo of
        File_Absent \<Rightarrow> detect_go repo
      | File_Unreadable e \<Rightarrow> Inl e
      | File_Text content \<Rightarrow>
          (if str_contains ''jest'' content then Inr (Some ''jest'')
           else if str_contains ''vitest'' content then Inr (Some ''vitest'')
           else if str_contains ''mocha'' content then Inr (Some ''mocha'')
           else detect_go repo))"

definition detect_test_framework :: "test_repo \<Rightarrow> string + string option" where
  "detect_test_framework repo =
     (if pytest_ini_exists repo then Inr (Some ''pytest'')
      else (case pyproject_toml repo of
              File_Absent \<Rightarrow> detect_package_json repo
            | File_Unreadable e \<Rightarrow> Inl e
            | File_Text content \<Rightarrow>
                (if str_contains ''pytest'' content then Inr (Some ''pytest'')
                 else detect_package_json repo)))"

text \<open>
  \<^verbatim>\<open>subprocess.run(cmd, capture_output=True, text=True, timeout=300)\<close>: the process ends and
  leaves its standard output and standard error, or the call raises \<^verbatim>\<open>TimeoutExpired\<close>, or it
  raises another exception (\<^verbatim>\<open>FileNotFoundError\<close> when the program is not installed).
\<close>

datatype test_run =
  Test_Completed string string
| Test_TimeoutExpired
| Test_Raised string

text \<open>
  \<^verbatim>\<open>TestRunner.run_tests\<close>; \<open>run\<close> is \<^verbatim>\<open>subprocess.run\<close> in the repository root. The counters
  start at 0 and are assigned only after a process has ended and its output has been read:
  the two \<^verbatim>\<open>except\<close> clauses log and fall through to \<^verbatim>\<open>return results\<close>, and so does a framework
  with no branch of its own (\<^verbatim>\<open>mocha\<close>). \<open>Inl\<close> is an exception of the detection, which is
  outside the \<^verbatim>\<open>try\<close>.
\<close>

definition run_pytest :: "(string list \<Rightarrow> test_run) \<Rightarrow> TestResults" where
  "run_pytest run =
     (case run [''python'', ''-m'', ''pytest'', ''--tb=short'', ''-q''] of
        Test_Completed out err \<Rightarrow>
          (let output = out @ err;
               passed_match = re_search passed_pattern output;
               failed_match = re_search failed_pattern output;
               n_passed = (case passed_match of Some (g # _) \<Rightarrow> int_of_digits g | _ \<Rightarrow> 0);
               n_failed = (case failed_match of Some (g # _) \<Rightarrow> int_of_digits g | _ \<Rightarrow> 0)
           in TestResults_default\<lparr>unit_passed := n_passed, unit_total := n_passed + n_failed\<rparr>)
      | Test_TimeoutExpired \<Rightarrow> TestResults_default
      | Test_Raised e \<Rightarrow> TestResults_default)"

definition run_jest :: "(string list \<Rightarrow> test_run) \<Rightarrow> TestResults" where
  "run_jest run =
     (case run [''npm'', ''test'', ''--'', ''--passWithNoTests''] of
        Test_Completed out err \<Rightarrow>
          (let output = out @ err;
               tests_match = re_search tests_pattern output
           in case tests_match of
                Some (g1 # g2 # _) \<Rightarrow>
                  TestResults_default\<lparr>unit_passed := int_of_digits g1,
                                      unit_total := int_of_digits g2\<rparr>
              | _ \<Rightarrow> TestResults_default)
      | Test_TimeoutExpired \<Rightarrow> TestResults_default
      | Test_Raised e \<Rightarrow> TestResults_default)"

definition run_go :: "(string list \<Rightarrow> test_run) \<Rightarrow> TestResults" where
  "run_go run =
     (case run [''go'', ''test'', ''./...'', ''-v''] of
        Test_Completed out err \<Rightarrow>
          (let output = out;
               n_passed = int (str_count ''--- PASS:'' output);
               n_failed = int (str_count ''--- FAIL:'' output)
           in TestResults_default\<lparr>unit_passed := n_passed, unit_total := n_passed + n_failed\<rparr>)
      | Test_TimeoutExpired \<Rightarrow> TestResults_default
      | Test_Raised e \<Rightarrow> TestResults_default)"

definition run_tests :: "test_repo \<Rightarrow> (string list \<Rightarrow> test_run) \<Rightarrow> string + TestResults" where
  "run_tests repo run =
     (case detect_test_framework repo of
        Inl e \<Rightarrow> Inl e
      | Inr None \<Rightarrow> Inr TestResults_default
      | Inr (Some framework) \<Rightarrow>
          Inr (if framework = ''pytest'' then run_pytest run
               else if framework = ''jest'' \<or> framework = ''vitest'' then run_jest run
               else if framework = ''go'' then run_go run
               else TestResults_default))"

subsection \<open>Saving the sign-off\<close>

text \<open>
  \<^verbatim>\<open>implementation_plan.json\<close> in the spec directory: absent, present but not loadable (\<^verbatim>\<open>open\<close>
  or \<^verbatim>\<open>json.load\<close> raises one of the exceptions \<^verbatim>\<open>load_implementation_plan\<close> catches), or
  holding a JSON value, which need not be an object.
\<close>

datatype plan_file = Plan_Absent | Plan_Unloadable | Plan_Json json

definition load_implementation_plan :: "plan_file \<Rightarrow> json option" where
  "load_implementation_plan pf =
     (case pf of Plan_Absent \<Rightarrow> None | Plan_Unloadable \<Rightarrow> None | Plan_Json v \<Rightarrow> Some v)"

text \<open>
  \<^verbatim>\<open>save_implementation_plan\<close>: \<open>writable\<close> tells whether creating the directory and opening
  the file for writing succeed; if not, the \<^verbatim>\<open>OSError\<close> is caught, the file stays as it is and
  the result is \<^verbatim>\<open>False\<close>.
\<close>

definition save_implementation_plan :: "plan_file \<Rightarrow> bool \<Rightarrow> json \<Rightarrow> bool \<times> plan_file" where
  "save_implementation_plan pf writable plan =
     (if writable then (True, Plan_Json plan) else (False, pf))"

text \<open>
  \<^verbatim>\<open>save_qa_signoff_status\<close>. \<^verbatim>\<open>plan = load_implementation_plan(spec_dir) or {}\<close> keeps every
  truthy loaded value, and \<^verbatim>\<open>plan["qa_signoff"] = ...\<close> raises \<^verbatim>\<open>TypeError\<close> on a value that is not
  a dict (\<open>Inl\<close>, with the text of the exception).
\<close>

definition save_qa_signoff_status ::
  "plan_file \<Rightarrow> bool \<Rightarrow> QASignoff \<Rightarrow> string + (bool \<times> plan_file)" where
  "save_qa_signoff_status pf writable signoff =
     (let plan = (case load_implementation_plan pf of
                    None \<Rightarrow> JObj []
                  | Some v \<Rightarrow> (if truthy v then v else JObj []))
      in case plan of
           JObj d \<Rightarrow>
             Inr (save_implementation_plan pf writable
                    (JObj (dict_set ''qa_signoff'' (JObj (QASignoff_to_dict signoff)) d)))
         | JArr xs \<Rightarrow> Inl ''list indices must be integers or slices, not str''
         | JStr s \<Rightarrow> Inl (quote @ ''str'' @ quote @ '' object does not support item assignment'')
         | JNum n \<Rightarrow> Inl (quote @ ''int'' @ quote @ '' object does not support item assignment'')
         | JBool b \<Rightarrow> Inl (quote @ ''bool'' @ quote @ '' object does not support item assignment'')
         | JNull \<Rightarrow>
             Inl (quote @ ''NoneType'' @ quote @ '' object does not support item assignment''))"

subsection \<open>The review session\<close>

text \<open>
  \<^verbatim>\<open>run_qa_review\<close>. Everything between \<^verbatim>\<open>try\<close> and \<^verbatim>\<open>except Exception\<close> either yields a
  value or raises, and an exception with text \<open>e\<close> from the review (\<open>Inl e\<close>), from the test
  runner or from saving the sign-off gives the status \<^verbatim>\<open>"error"\<close> and a failed result with
  the warning \<open>e\<close>. The function returns the status, the review result and the plan file
  afterwards.
\<close>

definition error_result :: "string \<Rightarrow> ReviewResult" where
  "error_result e =
     \<lparr>passed = False, issues = [], warnings = [e], files_reviewed = 0,
      checks_performed = 0, breaking_changes_detected = []\<rparr>"

definition run_qa_review ::
  "string + ReviewResult \<Rightarrow> test_repo \<Rightarrow> (string list \<Rightarrow> test_run) \<Rightarrow> plan_file \<Rightarrow> bool \<Rightarrow> int
     \<Rightarrow> string \<times> ReviewResult \<times> plan_file" where
  "run_qa_review review_outcome repo run pf writable session =
     (case review_outcome of
        Inl e \<Rightarrow> (''error'', error_result e, pf)
      | Inr result \<Rightarrow>
          (case run_tests repo run of
             Inl e \<Rightarrow> (''error'', error_result e, pf)
           | Inr tr \<Rightarrow>
               (let (status_text, signoff) =
                      (if passed result \<and> all_passed tr
                       then (''approved'',
                             \<lparr>status = APPROVED, qa_session = session, issues_found = [],
                              test_results = Some tr, verified_by = ''qa_agent'',
                              ready_for_revalidation = False\<rparr>)
                       else (''rejected'',
                             \<lparr>status = REJECTED, qa_session = session,
                              issues_found = issues result,
                              test_results = Some tr, verified_by = ''qa_agent'',
                              ready_for_revalidation = False\<rparr>))
                in case save_qa_signoff_status pf writable signoff of
                     Inl e \<Rightarrow> (''error'', error_result e, pf)
                   | Inr (saved, pf') \<Rightarrow> (status_text, result, pf'))))"

text \<open>
  A JavaScript project tested with Jest, a run of \<^verbatim>\<open>npm test\<close> in which one of three tests
  fails, with the summary Jest prints, and a review of one changed file that finds no issue.
\<close>

definition jest_repo :: test_repo where
  "jest_repo =
     \<lparr>pytest_ini_exists = False, pyproject_toml = File_Absent,
      package_json =
        File_Text (''{'' @ [CHR 0x22] @ ''devDependencies'' @ [CHR 0x22] @ '': {''
                   @ [CHR 0x22] @ ''jest'' @ [CHR 0x22] @ '': '' @ [CHR 0x22] @ ''^29.0.0''
                   @ [CHR 0x22] @ ''}}''),
      go_test_files = []\<rparr>"

definition jest_summary_one_failed :: string where
  "jest_summary_one_failed =
     ''Test Suites: 1 failed, 1 total'' @ newline
     @ ''Tests:       1 failed, 2 passed, 3 total'' @ newline
     @ ''Snapshots:   0 total'' @ newline
     @ ''Time:        1.234 s'' @ newline"

definition jest_run_one_failed :: "string list \<Rightarrow> test_run" where
  "jest_run_one_failed cmd =
     (if cmd = [''npm'', ''test'', ''--'', ''--passWithNoTests'']
      then Test_Completed [] jest_summary_one_failed
      else Test_Raised ''No such file or directory'')"

definition clean_review :: ReviewResult where
  "clean_review = review [[]] 9 (Some [''src/sum.js'']) None [] [] []"

text \<open>The same review in a Python project whose pytest run has one failing test of three.\<close>

definition pytest_repo :: test_repo where
  "pytest_repo =
     \<lparr>pytest_ini_exists = True, pyproject_toml = File_Absent, package_json = File_Absent,
      go_test_files = []\<rparr>"

definition pytest_run_one_failed :: "string list \<Rightarrow> test_run" where
  "pytest_run_one_failed cmd =
     (if cmd = [''python'', ''-m'', ''pytest'', ''--tb=short'', ''-q'']
      then Test_Completed (''1 failed, 2 passed in 0.12s'' @ newline) []
      else Test_Raised ''No such file or directory'')"


subsection \<open>What the verdict depends on\<close>

lemma review_passed_iff:
  "passed (review fi n cf sc td ai bc) =
     (\<not> list_ex (\<lambda>i. severity i = SEV_CRITICAL) (issues (review fi n cf sc td ai bc))
      \<and> length (filter (\<lambda>i. severity i = SEV_HIGH) (issues (review fi n cf sc td ai bc))) < 3)"
  by (auto simp add: review_def Let_def list_ex_iff filter_empty_conv)

text \<open>
  When the review raises nothing, the plan file is absent, not loadable, falsy or a JSON
  object, and the detection of the framework raises nothing, the verdict is \<^verbatim>\<open>"approved"\<close> if
  the review passed and the counters of the runner are pairwise equal, and \<^verbatim>\<open>"rejected"\<close>
  otherwise. The counters are what \<^verbatim>\<open>run_tests\<close> read from the output, not what the tests did.
\<close>

lemma save_qa_signoff_status_dict:
  assumes "case load_implementation_plan pf of
             None \<Rightarrow> True | Some v \<Rightarrow> truthy v \<longrightarrow> (\<exists>d. v = JObj d)"
  shows "\<exists>r. save_qa_signoff_status pf w signoff = Inr r"
proof (cases "load_implementation_plan pf")
  case None
  then show ?thesis by (simp add: save_qa_signoff_status_def)
next
  case (Some v)
  show ?thesis
  proof (cases "truthy v")
    case True
    then obtain d where "v = JObj d" using assms Some by auto
    then show ?thesis using Some True by (simp add: save_qa_signoff_status_def)
  next
    case False
    then show ?thesis using Some by (simp add: save_qa_signoff_status_def)
  qed
qed

lemma run_qa_review_verdict:
  assumes "case load_implementation_plan pf of
             None \<Rightarrow> True | Some v \<Rightarrow> truthy v \<longrightarrow> (\<exists>d. v = JObj d)"
    and "run_tests repo run = Inr tr"
  shows "fst (run_qa_review (Inr (review fi n cf sc td ai bc)) repo run pf w k) =
     (if \<not> list_ex (\<lambda>i. severity i = SEV_CRITICAL) (issues (review fi n cf sc td ai bc))
         \<and> length (filter (\<lambda>i. severity i = SEV_HIGH) (issues (review fi n cf sc td ai bc))) < 3
         \<and> all_passed tr
      then ''approved'' else ''rejected'')"
proof -
  let ?res = "review fi n cf sc td ai bc"
  let ?ok = "\<lparr>status = APPROVED, qa_session = k, issues_found = [],
              test_results = Some tr, verified_by = ''qa_agent'',
              ready_for_revalidation = False\<rparr>"
  let ?no = "\<lparr>status = REJECTED, qa_session = k, issues_found = issues ?res,
              test_results = Some tr, verified_by = ''qa_agent'',
              ready_for_revalidation = False\<rparr>"
  obtain r1 where r1: "save_qa_signoff_status pf w ?ok = Inr r1"
    using save_qa_signoff_status_dict [OF assms(1)] by blast
  obtain r2 where r2: "save_qa_signoff_status pf w ?no = Inr r2"
    using save_qa_signoff_status_dict [OF assms(1)] by blast
  have "fst (run_qa_review (Inr ?res) repo run pf w k) =
     (if passed ?res \<and> all_passed tr then ''approved'' else ''rejected'')"
    using assms(2) r1 r2 by (auto simp add: run_qa_review_def split: prod.splits)
  then show ?thesis
    using review_passed_iff [of fi n cf sc td ai bc] by simp
qed

text \<open>The verdict is \<^verbatim>\<open>"error"\<close> when the review, the detection or the assignment raises.\<close>

lemma run_qa_review_error:
  "fst (run_qa_review (Inl e) repo run pf w k) = ''error''"
  "run_tests repo run = Inl e \<Longrightarrow> fst (run_qa_review r repo run pf w k) = ''error''"
  "run_tests repo run = Inr tr \<Longrightarrow> load_implementation_plan pf = Some (JArr (x # xs))
     \<Longrightarrow> fst (run_qa_review (Inr res) repo run pf w k) = ''error''"
  by (cases r; simp add: run_qa_review_def save_qa_signoff_status_def truthy_def)+

text \<open>
  A run that raises leaves the counters at 0, whatever the framework, and so does a run of
  Jest or Vitest whose output the pattern does not match; counters at 0 count as all passed.
\<close>

lemma run_tests_raised:
  assumes "\<forall>cmd. run cmd = Test_TimeoutExpired \<or> (\<exists>e. run cmd = Test_Raised e)"
    and "detect_test_framework repo = Inr fw"
  shows "run_tests repo run = Inr TestResults_default"
proof -
  have "run_pytest run = TestResults_default"
    using assms(1) [rule_format, of "[''python'', ''-m'', ''pytest'', ''--tb=short'', ''-q'']"]
    by (auto simp add: run_pytest_def)
  moreover have "run_jest run = TestResults_default"
    using assms(1) [rule_format, of "[''npm'', ''test'', ''--'', ''--passWithNoTests'']"]
    by (auto simp add: run_jest_def)
  moreover have "run_go run = TestResults_default"
    using assms(1) [rule_format, of "[''go'', ''test'', ''./...'', ''-v'']"]
    by (auto simp add: run_go_def)
  ultimately show ?thesis
    using assms(2) by (cases fw) (simp_all add: run_tests_def)
qed

lemma run_jest_unmatched:
  assumes "run [''npm'', ''test'', ''--'', ''--passWithNoTests''] = Test_Completed out err"
    and "re_search tests_pattern (out @ err) = None"
  shows "run_jest run = TestResults_default"
  using assms by (simp add: run_jest_def)

lemma all_passed_default: "all_passed TestResults_default"
  by (simp add: all_passed_def TestResults_default_def)

subsection \<open>A failing Jest run\<close>

lemma jest_repo_framework: "detect_test_framework jest_repo = Inr (Some ''jest'')"
  by code_simp

lemma jest_summary_unmatched: "re_search tests_pattern ([] @ jest_summary_one_failed) = None"
  by code_simp

lemma clean_review_passed: "passed clean_review \<and> issues clean_review = []"
  by code_simp

lemma pytest_one_failed_counters:
  "run_tests pytest_repo pytest_run_one_failed
     = Inr (TestResults_default\<lparr>unit_passed := 2, unit_total := 3\<rparr>)"
  by code_simp

text \<open>
  Claim C2 on the code. In a project tested with Jest, \<^verbatim>\<open>npm test\<close> runs three tests, one of
  which fails, and the review finds no issue. Jest prints \<^verbatim>\<open>Tests: 1 failed, 2 passed, 3 total\<close>;
  the pattern of \<^verbatim>\<open>run_tests\<close> wants the count of passed tests right after \<^verbatim>\<open>Tests:\<close> and does
  not match, so the counters stay 0 of 0, \<^verbatim>\<open>all_passed\<close> holds and the verdict is \<^verbatim>\<open>"approved"\<close>,
  with an approved sign-off saved. The same verdict is given when the test run times out.
  The pytest branch of the same method counts the failed tests: with one failed test of three
  the verdict is \<^verbatim>\<open>"rejected"\<close>.
\<close>

theorem failed_jest_tests_are_approved:
  "detect_test_framework jest_repo = Inr (Some ''jest'')
   \<and> re_search tests_pattern jest_summary_one_failed = None
   \<and> run_tests jest_repo jest_run_one_failed = Inr TestResults_default
   \<and> passed clean_review
   \<and> issues clean_review = []
   \<and> run_qa_review (Inr clean_review) jest_repo jest_run_one_failed Plan_Absent True 1
       = (''approved'', clean_review,
          Plan_Json
            (JObj [(''qa_signoff'',
                    JObj [(''status'', JStr ''approved''), (''qa_session'', JNum 1),
                          (''verified_by'', JStr ''qa_agent''),
                          (''tests_passed'',
                           JObj [(''unit'', JStr ''0/0''), (''integration'', JStr ''0/0''),
                                 (''e2e'', JStr ''0/0'')])])]))
   \<and> fst (run_qa_review (Inr clean_review) jest_repo (\<lambda>cmd. Test_TimeoutExpired)
            Plan_Absent True 1) = ''approved''
   \<and> run_tests pytest_repo pytest_run_one_failed
       = Inr (TestResults_default\<lparr>unit_passed := 2, unit_total := 3\<rparr>)
   \<and> fst (run_qa_review (Inr clean_review) pytest_repo pytest_run_one_failed
            Plan_Absent True 1) = ''rejected''"
proof -
  have jest: "run_tests jest_repo jest_run_one_failed = Inr TestResults_default"
    using run_jest_unmatched [of jest_run_one_failed "[]" jest_summary_one_failed]
      jest_summary_unmatched jest_repo_framework
    by (simp add: run_tests_def jest_run_one_failed_def)
  have timeout: "run_tests jest_repo (\<lambda>cmd. Test_TimeoutExpired) = Inr TestResults_default"
    using run_tests_raised [of "\<lambda>cmd. Test_TimeoutExpired" jest_repo] jest_repo_framework
    by simp
  have dflt: "str_of_int 0 = ''0''"
    by code_simp
  have saved: "QASignoff_to_dict
        \<lparr>status = APPROVED, qa_session = 1, issues_found = [],
         test_results = Some TestResults_default, verified_by = ''qa_agent'',
         ready_for_revalidation = False\<rparr>
      = [(''status'', JStr ''approved''), (''qa_session'', JNum 1),
         (''verified_by'', JStr ''qa_agent''),
         (''tests_passed'',
          JObj [(''unit'', JStr ''0/0''), (''integration'', JStr ''0/0''),
                (''e2e'', JStr ''0/0'')])]"
    by (simp add: QASignoff_to_dict_def TestResults_to_dict_def TestResults_default_def dflt)
  have rejected: "\<not> all_passed (TestResults_default\<lparr>unit_passed := 2, unit_total := 3\<rparr>)"
    by (simp add: all_passed_def TestResults_default_def)
  have save: "save_qa_signoff_status Plan_Absent True sg
      = Inr (True, Plan_Json (JObj [(''qa_signoff'', JObj (QASignoff_to_dict sg))]))" for sg
    by (simp add: save_qa_signoff_status_def load_implementation_plan_def
        save_implementation_plan_def)
  show ?thesis
    using clean_review_passed jest_summary_unmatched
    by (simp add: run_qa_review_def jest timeout pytest_one_failed_counters jest_repo_framework
        all_passed_default rejected save saved)
qed

section \<open>Session orchestrator (agents/session.py)\<close>

subsection \<open>Python values and exceptions\<close>

text \<open>
  The exceptions the session code can meet. The library functions it calls are the fields
  of a record: \<^verbatim>\<open>datetime.isoformat\<close>, \<^verbatim>\<open>datetime.fromisoformat\<close> (\<open>None\<close> where Python raises
  \<^verbatim>\<open>ValueError\<close>), and the formatting of a value that is not a string inside an f-string. A
  \<^verbatim>\<open>datetime\<close> is a number.
\<close>

datatype py_exception =
  KeyError string
| ValueError string
| TypeError
| AttributeError

record python_lib =
  isoformat :: "nat \<Rightarrow> string"
  fromisoformat :: "string \<Rightarrow> nat option"
  format_value :: "json \<Rightarrow> string"

definition fmt :: "python_lib \<Rightarrow> json \<Rightarrow> string" where
  "fmt L v = (case v of JStr s \<Rightarrow> s | _ \<Rightarrow> format_value L v)"

text \<open>\<^verbatim>\<open>data[key]\<close> for a value read from JSON: only a dict can be indexed by a string.\<close>

definition subscript :: "json \<Rightarrow> string \<Rightarrow> py_exception + json" where
  "subscript data k =
     (case data of
        JObj d \<Rightarrow> (case dict_get k d of None \<Rightarrow> Inl (KeyError k) | Some v \<Rightarrow> Inr v)
      | _ \<Rightarrow> Inl TypeError)"

text \<open>\<^verbatim>\<open>data.get(key, default)\<close> on a dict.\<close>

definition get_or :: "(string \<times> json) list \<Rightarrow> string \<Rightarrow> json \<Rightarrow> json" where
  "get_or d k dflt = (case dict_get k d of None \<Rightarrow> dflt | Some v \<Rightarrow> v)"

text \<open>
  \<^verbatim>\<open>repr(s)\<close> of a string whose characters are code points below 256. The quotes are single
  unless the string holds a single quote and no double quote; the backslash and the chosen
  quote are escaped, tab, line feed and carriage return are written \<^verbatim>\<open>\t\<close>, \<^verbatim>\<open>\n\<close>, \<^verbatim>\<open>\r\<close>, and every
  other character that is not printable is written \<^verbatim>\<open>\xhh\<close>.
\<close>

definition hex_digit :: "nat \<Rightarrow> char" where
  "hex_digit d = (if d < 10 then char_of (48 + d) else char_of (87 + d))"

definition repr_char :: "char \<Rightarrow> char \<Rightarrow> string" where
  "repr_char q c =
     (let n = (of_char c :: nat)
      in if c = q \<or> c = CHR 0x5C then [CHR 0x5C, c]
         else if n = 9 then [CHR 0x5C, CHR ''t'']
         else if n = 10 then [CHR 0x5C, CHR ''n'']
         else if n = 13 then [CHR 0x5C, CHR ''r'']
         else if n < 32 \<or> n = 127 \<or> (128 \<le> n \<and> n \<le> 160) \<or> n = 173
         then [CHR 0x5C, CHR ''x'', hex_digit (n div 16), hex_digit (n mod 16)]
         else [c])"

definition repr_str :: "string \<Rightarrow> string" where
  "repr_str s =
     (let q = (if CHR 0x27 \<in> set s \<and> CHR 0x22 \<notin> set s then CHR 0x22 else CHR 0x27)
      in [q] @ concat (map (repr_char q) s) @ [q])"

text \<open>
  \<^verbatim>\<open>datetime.fromisoformat(v)\<close>: a \<^verbatim>\<open>ValueError\<close> naming \<^verbatim>\<open>repr(v)\<close> for a string it rejects, a
  \<^verbatim>\<open>TypeError\<close> for a value that is not a string.
\<close>

definition parse_datetime :: "python_lib \<Rightarrow> json \<Rightarrow> py_exception + nat" where
  "parse_datetime L v =
     (case v of
        JStr s \<Rightarrow>
          (case fromisoformat L s of
             None \<Rightarrow> Inl (ValueError (''Invalid isoformat string: '' @ repr_str s))
           | Some t \<Rightarrow> Inr t)
      | _ \<Rightarrow> Inl TypeError)"

subsection \<open>Messages and session data\<close>

text \<open>
  \<^verbatim>\<open>from_dict\<close> copies most values without looking at their type, so they are kept as the
  JSON values they are.
\<close>

record ConversationMessage =
  role :: json
  content :: json
  timestamp :: nat
  metadata :: json

definition message_to_dict :: "python_lib \<Rightarrow> ConversationMessage \<Rightarrow> json" where
  "message_to_dict L m =
     JObj [(''role'', role m), (''content'', content m),
           (''timestamp'', JStr (isoformat L (timestamp m))), (''metadata'', metadata m)]"

definition message_from_dict :: "python_lib \<Rightarrow> json \<Rightarrow> py_exception + ConversationMessage" where
  "message_from_dict L data =
     (case subscript data ''role'' of
        Inl e \<Rightarrow> Inl e
      | Inr r \<Rightarrow>
          (case subscript data ''content'' of
             Inl e \<Rightarrow> Inl e
           | Inr c \<Rightarrow>
               (case subscript data ''timestamp'' of
                  Inl e \<Rightarrow> Inl e
                | Inr ts \<Rightarrow>
                    (case parse_datetime L ts of
                       Inl e \<Rightarrow> Inl e
                     | Inr t \<Rightarrow>
                         (case data of
                            JObj d \<Rightarrow>
                              Inr \<lparr>role = r, content = c, timestamp = t,
                                   metadata = get_or d ''metadata'' (JObj [])\<rparr>
                          | _ \<Rightarrow> Inl TypeError)))))"

record SessionData =
  session_id :: json
  spec_id :: json
  task_description :: json
  created_at :: nat
  started_at :: "nat option"
  completed_at :: "nat option"
  session_status :: json
  session_phase :: json
  session_result :: json
  messages :: "ConversationMessage list"
  metrics :: json
  artifacts :: json
  session_errors :: json

text \<open>\<^verbatim>\<open>SessionData.add_message\<close>; \<open>t\<close> is the time \<^verbatim>\<open>datetime.now()\<close> gives the new message.\<close>

definition add_message :: "string \<Rightarrow> string \<Rightarrow> json option \<Rightarrow> nat \<Rightarrow> SessionData \<Rightarrow> SessionData" where
  "add_message r c md t s =
     s\<lparr>messages := messages s
          @ [\<lparr>role = JStr r, content = JStr c, timestamp = t,
              metadata = (case md of
                            None \<Rightarrow> JObj []
                          | Some v \<Rightarrow> (if truthy v then v else JObj []))\<rparr>]\<rparr>"

definition json_of_time :: "python_lib \<Rightarrow> nat option \<Rightarrow> json" where
  "json_of_time L t = (case t of None \<Rightarrow> JNull | Some x \<Rightarrow> JStr (isoformat L x))"

definition to_dict :: "python_lib \<Rightarrow> SessionData \<Rightarrow> json" where
  "to_dict L s =
     JObj [(''session_id'', session_id s),
           (''spec_id'', spec_id s),
           (''task_description'', task_description s),
           (''created_at'', JStr (isoformat L (created_at s))),
           (''started_at'', json_of_time L (started_at s)),
           (''completed_at'', json_of_time L (completed_at s)),
           (''status'', session_status s),
           (''phase'', session_phase s),
           (''result'', session_result s),
           (''messages'', JArr (map (message_to_dict L) (messages s))),
           (''metrics'', metrics s),
           (''artifacts'', artifacts s),
           (''errors'', session_errors s)]"

text \<open>An optional timestamp of \<^verbatim>\<open>from_dict\<close>: parsed only when the value is truthy.\<close>

definition optional_datetime :: "python_lib \<Rightarrow> json \<Rightarrow> py_exception + nat option" where
  "optional_datetime L v =
     (if truthy v
      then (case parse_datetime L v of Inl e \<Rightarrow> Inl e | Inr t \<Rightarrow> Inr (Some t))
      else Inr None)"

text \<open>
  The list comprehension over \<^verbatim>\<open>data.get("messages", [])\<close>: the first failing element ends
  it. Iterating over a dict or a string yields strings, which cannot be indexed by
  \<^verbatim>\<open>"role"\<close>; a number, a truth value or \<^verbatim>\<open>null\<close> cannot be iterated.
\<close>

fun messages_from_list :: "python_lib \<Rightarrow> json list \<Rightarrow> py_exception + ConversationMessage list" where
  "messages_from_list L [] = Inr []"
| "messages_from_list L (m # ms) =
     (case message_from_dict L m of
        Inl e \<Rightarrow> Inl e
      | Inr x \<Rightarrow> (case messages_from_list L ms of Inl e \<Rightarrow> Inl e | Inr xs \<Rightarrow> Inr (x # xs)))"

definition messages_from :: "python_lib \<Rightarrow> json \<Rightarrow> py_exception + ConversationMessage list" where
  "messages_from L v =
     (case v of
        JArr ms \<Rightarrow> messages_from_list L ms
      | JObj d \<Rightarrow> (if d = [] then Inr [] else Inl TypeError)
      | JStr s \<Rightarrow> (if s = [] then Inr [] else Inl TypeError)
      | _ \<Rightarrow> Inl TypeError)"

definition from_dict :: "python_lib \<Rightarrow> json \<Rightarrow> py_exception + SessionData" where
  "from_dict L data =
     (case subscript data ''session_id'' of
        Inl e \<Rightarrow> Inl e
      | Inr sid \<Rightarrow>
          (case data of
             JObj d \<Rightarrow>
               (case subscript data ''created_at'' of
                  Inl e \<Rightarrow> Inl e
                | Inr c \<Rightarrow>
                    (case parse_datetime L c of
                       Inl e \<Rightarrow> Inl e
                     | Inr created \<Rightarrow>
                         (case optional_datetime L (get_or d ''started_at'' JNull) of
                            Inl e \<Rightarrow> Inl e
                          | Inr started \<Rightarrow>
                              (case optional_datetime L (get_or d ''completed_at'' JNull) of
                                 Inl e \<Rightarrow> Inl e
                               | Inr completed \<Rightarrow>
                                   (case messages_from L (get_or d ''messages'' (JArr [])) of
                                      Inl e \<Rightarrow> Inl e
                                    | Inr msgs \<Rightarrow>
                                        Inr \<lparr>session_id = sid,
                                             spec_id = get_or d ''spec_id'' JNull,
                                             task_description =
                                               get_or d ''task_description'' (JStr ''''),
                                             created_at = created,
                                             started_at = started,
                                             completed_at = completed,
                                             session_status = get_or d ''status'' (JStr ''pending''),
                                             session_phase =
                                               get_or d ''phase'' (JStr ''initializing''),
                                             session_result = get_or d ''result'' JNull,
                                             messages = msgs,
                                             metrics = get_or d ''metrics'' (JObj []),
                                             artifacts = get_or d ''artifacts'' (JObj []),
                                             session_errors = get_or d ''errors'' (JArr [])\<rparr>)))))
           | _ \<Rightarrow> Inl TypeError))"

subsection \<open>The session store\<close>

text \<open>
  What a session file holds: bytes that are not UTF-8 (\<^verbatim>\<open>UnicodeDecodeError\<close>, a
  \<^verbatim>\<open>ValueError\<close>), text that is not JSON (\<^verbatim>\<open>JSONDecodeError\<close>), or a JSON value.
\<close>

datatype session_file = NotUtf8 | NotJson | Json json

text \<open>
  Session objects are shared between the cache of the store and the active sessions of the
  orchestrator, and are changed in place. They live in a heap, addressed by their index;
  the cache and the active sessions hold addresses. The files of the sessions directory
  are named by their stem.
\<close>

record orchestrator =
  heap :: "SessionData list"
  disk :: "(string \<times> session_file) list"
  cache :: "(json \<times> nat) list"
  active_sessions :: "(string \<times> nat) list"

definition hashable :: "json \<Rightarrow> bool" where
  "hashable v = (case v of JArr _ \<Rightarrow> False | JObj _ \<Rightarrow> False | _ \<Rightarrow> True)"

text \<open>
  \<^verbatim>\<open>SessionStore.save\<close> of the object at address \<open>r\<close>: the file is written, then the cache
  entry is set, which raises \<^verbatim>\<open>TypeError\<close> for a key that cannot be hashed.
\<close>

definition store_save :: "python_lib \<Rightarrow> nat \<Rightarrow> orchestrator \<Rightarrow> py_exception + orchestrator" where
  "store_save L r st =
     (let s = heap st ! r;
          st1 = st\<lparr>disk := dict_set (fmt L (session_id s)) (Json (to_dict L s)) (disk st)\<rparr>
      in if hashable (session_id s)
         then Inr (st1\<lparr>cache := dict_set (session_id s) r (cache st1)\<rparr>)
         else Inl TypeError)"

text \<open>
  \<^verbatim>\<open>SessionStore.load\<close>: the address of the session, or \<open>None\<close>. Only \<^verbatim>\<open>JSONDecodeError\<close> and
  \<^verbatim>\<open>KeyError\<close> are caught.
\<close>

definition store_load ::
  "python_lib \<Rightarrow> string \<Rightarrow> orchestrator \<Rightarrow> (py_exception + nat option) \<times> orchestrator" where
  "store_load L sid st =
     (case dict_get (JStr sid) (cache st) of
        Some r \<Rightarrow> (Inr (Some r), st)
      | None \<Rightarrow>
          (case dict_get sid (disk st) of
             None \<Rightarrow> (Inr None, st)
           | Some NotUtf8 \<Rightarrow> (Inl (ValueError ''invalid utf-8''), st)
           | Some NotJson \<Rightarrow> (Inr None, st)
           | Some (Json data) \<Rightarrow>
               (case from_dict L data of
                  Inl (KeyError k) \<Rightarrow> (Inr None, st)
                | Inl e \<Rightarrow> (Inl e, st)
                | Inr s \<Rightarrow>
                    (Inr (Some (length (heap st))),
                     st\<lparr>heap := heap st @ [s],
                        cache := dict_set (JStr sid) (length (heap st)) (cache st)\<rparr>))))"

subsection \<open>The orchestrator\<close>

text \<open>
  \<^verbatim>\<open>session = self._active_sessions.get(session_id)\<close>, and \<^verbatim>\<open>self.store.load(session_id)\<close>
  when that is \<^verbatim>\<open>None\<close>.
\<close>

definition find_session ::
  "python_lib \<Rightarrow> string \<Rightarrow> orchestrator \<Rightarrow> (py_exception + nat option) \<times> orchestrator" where
  "find_session L sid st =
     (case dict_get sid (active_sessions st) of
        Some r \<Rightarrow> (Inr (Some r), st)
      | None \<Rightarrow> store_load L sid st)"

definition update_at :: "nat \<Rightarrow> (SessionData \<Rightarrow> SessionData) \<Rightarrow> orchestrator \<Rightarrow> orchestrator" where
  "update_at r f st = st\<lparr>heap := (heap st)[r := f (heap st ! r)]\<rparr>"

definition dict_pop :: "'k \<Rightarrow> ('k \<times> 'v) list \<Rightarrow> ('k \<times> 'v) list" where
  "dict_pop k d = filter (\<lambda>(k', v). k' \<noteq> k) d"

text \<open>
  \<^verbatim>\<open>create_session\<close>; \<open>new_id\<close> is \<^verbatim>\<open>str(uuid.uuid4())\<close>, \<open>clock 0\<close> and \<open>clock 1\<close> the first and
  second reading of \<^verbatim>\<open>datetime.now()\<close>. It returns the address of the new session.
\<close>

definition create_session ::
  "python_lib \<Rightarrow> (nat \<Rightarrow> nat) \<Rightarrow> string \<Rightarrow> string \<Rightarrow> json \<Rightarrow> orchestrator
     \<Rightarrow> (py_exception + nat) \<times> orchestrator" where
  "create_session L clock new_id task spec st =
     (let s = add_message ''system'' (''Session initialized for task: '' @ task) None (clock 1)
                \<lparr>session_id = JStr new_id, spec_id = spec, task_description = JStr task,
                 created_at = clock 0, started_at = None, completed_at = None,
                 session_status = JStr ''pending'', session_phase = JStr ''initializing'',
                 session_result = JNull, messages = [], metrics = JObj [],
                 artifacts = JObj [], session_errors = JArr []\<rparr>;
          r = length (heap st);
          st1 = st\<lparr>heap := heap st @ [s]\<rparr>
      in case store_save L r st1 of
           Inl e \<Rightarrow> (Inl e, st1)
         | Inr st2 \<Rightarrow> (Inr r, st2))"

text \<open>
  The lifecycle operations. Each returns the raised exception or its value, and the state.
  The operations that return the session return its address; those that return \<^verbatim>\<open>None\<close>
  return \<open>()\<close>. An exception raised after the session object was changed leaves the change
  in the heap.
\<close>

definition start_session ::
  "python_lib \<Rightarrow> (nat \<Rightarrow> nat) \<Rightarrow> string \<Rightarrow> orchestrator \<Rightarrow> (py_exception + nat) \<times> orchestrator" where
  "start_session L clock sid st =
     (case store_load L sid st of
        (Inl e, st1) \<Rightarrow> (Inl e, st1)
      | (Inr None, st1) \<Rightarrow> (Inl (ValueError (''Session '' @ sid @ '' not found'')), st1)
      | (Inr (Some r), st1) \<Rightarrow>
          (if session_status (heap st1 ! r) \<noteq> JStr ''pending''
              \<and> session_status (heap st1 ! r) \<noteq> JStr ''paused''
           then (Inl (ValueError (''Session '' @ sid @ '' cannot be started (status: ''
                                  @ fmt L (session_status (heap st1 ! r)) @ '')'')), st1)
           else
             (let st2 = update_at r
                          (\<lambda>s. add_message ''system'' ''Session started''
                                 (Some (JObj [(''started_at'', JStr (isoformat L (clock 0)))]))
                                 (clock 1)
                                 (s\<lparr>started_at := Some (clock 0),
                                    session_status := JStr ''running'',
                                    session_phase := JStr ''initializing''\<rparr>)) st1;
                  st3 = st2\<lparr>active_sessions := dict_set sid r (active_sessions st2)\<rparr>
              in case store_save L r st3 of
                   Inl e \<Rightarrow> (Inl e, st3)
                 | Inr st4 \<Rightarrow> (Inr r, st4))))"

definition update_session_phase ::
  "python_lib \<Rightarrow> (nat \<Rightarrow> nat) \<Rightarrow> string \<Rightarrow> string \<Rightarrow> string option \<Rightarrow> orchestrator
     \<Rightarrow> (py_exception + unit) \<times> orchestrator" where
  "update_session_phase L clock sid new_phase msg st =
     (case find_session L sid st of
        (Inl e, st1) \<Rightarrow> (Inl e, st1)
      | (Inr None, st1) \<Rightarrow> (Inr (), st1)
      | (Inr (Some r), st1) \<Rightarrow>
          (let st2 = update_at r
                       (\<lambda>s. (if truthy_str msg
                             then add_message ''system'' (the msg)
                                    (Some (JObj [(''phase'', JStr new_phase)])) (clock 0)
                                    (s\<lparr>session_phase := JStr new_phase\<rparr>)
                             else s\<lparr>session_phase := JStr new_phase\<rparr>)) st1
           in case store_save L r st2 of
                Inl e \<Rightarrow> (Inl e, st2)
              | Inr st3 \<Rightarrow> (Inr (), st3)))"

definition add_agent_message ::
  "python_lib \<Rightarrow> (nat \<Rightarrow> nat) \<Rightarrow> string \<Rightarrow> string \<Rightarrow> json option \<Rightarrow> orchestrator
     \<Rightarrow> (py_exception + unit) \<times> orchestrator" where
  "add_agent_message L clock sid body md st =
     (case find_session L sid st of
        (Inl e, st1) \<Rightarrow> (Inl e, st1)
      | (Inr None, st1) \<Rightarrow> (Inr (), st1)
      | (Inr (Some r), st1) \<Rightarrow>
          (let st2 = update_at r (add_message ''assistant'' body md (clock 0)) st1
           in case store_save L r st2 of
                Inl e \<Rightarrow> (Inl e, st2)
              | Inr st3 \<Rightarrow> (Inr (), st3)))"

definition add_user_message ::
  "python_lib \<Rightarrow> (nat \<Rightarrow> nat) \<Rightarrow> string \<Rightarrow> string \<Rightarrow> json option \<Rightarrow> orchestrator
     \<Rightarrow> (py_exception + unit) \<times> orchestrator" where
  "add_user_message L clock sid body md st =
     (case find_session L sid st of
        (Inl e, st1) \<Rightarrow> (Inl e, st1)
      | (Inr None, st1) \<Rightarrow> (Inr (), st1)
      | (Inr (Some r), st1) \<Rightarrow>
          (let st2 = update_at r (add_message ''user'' body md (clock 0)) st1
           in case store_save L r st2 of
                Inl e \<Rightarrow> (Inl e, st2)
              | Inr st3 \<Rightarrow> (Inr (), st3)))"

datatype ErrorSeverity = WARNING | RECOVERABLE | FATAL

fun ErrorSeverity_value :: "ErrorSeverity \<Rightarrow> string" where
  "ErrorSeverity_value WARNING = ''warning''"
| "ErrorSeverity_value RECOVERABLE = ''recoverable''"
| "ErrorSeverity_value FATAL = ''fatal''"

text \<open>\<^verbatim>\<open>AgentError\<close> of agents/base.py; the phase is the value of its \<^verbatim>\<open>AgentPhase\<close>.\<close>

record AgentError =
  error_message :: string
  error_severity :: ErrorSeverity
  error_phase :: string
  error_timestamp :: nat
  error_context :: json

definition AgentError_to_dict :: "python_lib \<Rightarrow> AgentError \<Rightarrow> json" where
  "AgentError_to_dict L e =
     JObj [(''message'', JStr (error_message e)),
           (''severity'', JStr (ErrorSeverity_value (error_severity e))),
           (''phase'', JStr (error_phase e)),
           (''timestamp'', JStr (isoformat L (error_timestamp e))),
           (''context'', error_context e)]"

definition record_error ::
  "python_lib \<Rightarrow> (nat \<Rightarrow> nat) \<Rightarrow> string \<Rightarrow> AgentError \<Rightarrow> orchestrator
     \<Rightarrow> (py_exception + unit) \<times> orchestrator" where
  "record_error L clock sid err st =
     (case find_session L sid st of
        (Inl e, st1) \<Rightarrow> (Inl e, st1)
      | (Inr None, st1) \<Rightarrow> (Inr (), st1)
      | (Inr (Some r), st1) \<Rightarrow>
          (case session_errors (heap st1 ! r) of
             JArr es \<Rightarrow>
               (let st2 = update_at r
                            (\<lambda>s. (let s1 = add_message ''system'' (''Error: '' @ error_message err)
                                             (Some (JObj [(''severity'',
                                                JStr (ErrorSeverity_value (error_severity err)))]))
                                             (clock 0)
                                             (s\<lparr>session_errors :=
                                                   JArr (es @ [AgentError_to_dict L err])\<rparr>)
                                  in if error_severity err = FATAL
                                     then s1\<lparr>session_status := JStr ''failed'',
                                             session_phase := JStr ''failed''\<rparr>
                                     else s1)) st1
                in case store_save L r st2 of
                     Inl e \<Rightarrow> (Inl e, st2)
                   | Inr st3 \<Rightarrow> (Inr (), st3))
           | _ \<Rightarrow> (Inl AttributeError, st1)))"

text \<open>
  \<^verbatim>\<open>complete_session\<close>; \<open>new_metrics\<close> is \<^verbatim>\<open>metrics.to_dict()\<close> when metrics are given, and
  \<open>new_artifacts\<close> the given artifacts.
\<close>

definition complete_session ::
  "python_lib \<Rightarrow> (nat \<Rightarrow> nat) \<Rightarrow> string \<Rightarrow> string \<Rightarrow> json option \<Rightarrow> json option \<Rightarrow> orchestrator
     \<Rightarrow> (py_exception + nat) \<times> orchestrator" where
  "complete_session L clock sid res new_metrics new_artifacts st =
     (case find_session L sid st of
        (Inl e, st1) \<Rightarrow> (Inl e, st1)
      | (Inr None, st1) \<Rightarrow> (Inl (ValueError (''Session '' @ sid @ '' not found'')), st1)
      | (Inr (Some r), st1) \<Rightarrow>
          (let st2 = update_at r
                       (\<lambda>s. add_message ''system'' (''Session completed: '' @ res)
                              (Some (JObj [(''completed_at'', JStr (isoformat L (clock 0)))]))
                              (clock 1)
                              (s\<lparr>completed_at := Some (clock 0),
                                 session_status := JStr ''completed'',
                                 session_phase := JStr ''completed'',
                                 session_result := JStr res,
                                 metrics := (case new_metrics of None \<Rightarrow> metrics s | Some m \<Rightarrow> m),
                                 artifacts := (case new_artifacts of
                                                 None \<Rightarrow> artifacts s
                                               | Some a \<Rightarrow> (if truthy a then a else artifacts s))\<rparr>))
                       st1;
               st3 = st2\<lparr>active_sessions := dict_pop sid (active_sessions st2)\<rparr>
           in case store_save L r st3 of
                Inl e \<Rightarrow> (Inl e, st3)
              | Inr st4 \<Rightarrow> (Inr r, st4)))"

definition fail_session ::
  "python_lib \<Rightarrow> (nat \<Rightarrow> nat) \<Rightarrow> string \<Rightarrow> string \<Rightarrow> json option \<Rightarrow> orchestrator
     \<Rightarrow> (py_exception + nat) \<times> orchestrator" where
  "fail_session L clock sid reason new_metrics st =
     (case find_session L sid st of
        (Inl e, st1) \<Rightarrow> (Inl e, st1)
      | (Inr None, st1) \<Rightarrow> (Inl (ValueError (''Session '' @ sid @ '' not found'')), st1)
      | (Inr (Some r), st1) \<Rightarrow>
          (let st2 = update_at r
                       (\<lambda>s. add_message ''system'' (''Session failed: '' @ reason)
                              (Some (JObj [(''completed_at'', JStr (isoformat L (clock 0)))]))
                              (clock 1)
                              (s\<lparr>completed_at := Some (clock 0),
                                 session_status := JStr ''failed'',
                                 session_phase := JStr ''failed'',
                                 session_result := JStr (''Failed: '' @ reason),
                                 metrics := (case new_metrics of None \<Rightarrow> metrics s | Some m \<Rightarrow> m)\<rparr>))
                       st1;
               st3 = st2\<lparr>active_sessions := dict_pop sid (active_sessions st2)\<rparr>
           in case store_save L r st3 of
                Inl e \<Rightarrow> (Inl e, st3)
              | Inr st4 \<Rightarrow> (Inr r, st4)))"

definition pause_session ::
  "python_lib \<Rightarrow> (nat \<Rightarrow> nat) \<Rightarrow> string \<Rightarrow> orchestrator \<Rightarrow> (py_exception + nat) \<times> orchestrator" where
  "pause_session L clock sid st =
     (case find_session L sid st of
        (Inl e, st1) \<Rightarrow> (Inl e, st1)
      | (Inr None, st1) \<Rightarrow> (Inl (ValueError (''Session '' @ sid @ '' not found'')), st1)
      | (Inr (Some r), st1) \<Rightarrow>
          (let st2 = update_at r
                       (\<lambda>s. add_message ''system'' ''Session paused'' None (clock 0)
                              (s\<lparr>session_status := JStr ''paused''\<rparr>)) st1
           in case store_save L r st2 of
                Inl e \<Rightarrow> (Inl e, st2)
              | Inr st3 \<Rightarrow> (Inr r, st3)))"

definition resume_session ::
  "python_lib \<Rightarrow> (nat \<Rightarrow> nat) \<Rightarrow> string \<Rightarrow> orchestrator \<Rightarrow> (py_exception + nat) \<times> orchestrator" where
  "resume_session L clock sid st =
     (case store_load L sid st of
        (Inl e, st1) \<Rightarrow> (Inl e, st1)
      | (Inr None, st1) \<Rightarrow> (Inl (ValueError (''Session '' @ sid @ '' not found'')), st1)
      | (Inr (Some r), st1) \<Rightarrow>
          (if session_status (heap st1 ! r) \<noteq> JStr ''paused''
           then (Inl (ValueError (''Session '' @ sid @ '' is not paused (status: ''
                                  @ fmt L (session_status (heap st1 ! r)) @ '')'')), st1)
           else
             (let st2 = update_at r
                          (\<lambda>s. add_message ''system'' ''Session resumed'' None (clock 0)
                                 (s\<lparr>session_status := JStr ''running''\<rparr>)) st1;
                  st3 = st2\<lparr>active_sessions := dict_set sid r (active_sessions st2)\<rparr>
              in case store_save L r st3 of
                   Inl e \<Rightarrow> (Inl e, st3)
                 | Inr st4 \<Rightarrow> (Inr r, st4))))"

text \<open>A session is terminal when its status is \<^verbatim>\<open>completed\<close>, \<^verbatim>\<open>failed\<close> or \<^verbatim>\<open>cancelled\<close>.\<close>

definition terminal :: "SessionData \<Rightarrow> bool" where
  "terminal s =
     (session_status s = JStr ''completed'' \<or> session_status s = JStr ''failed''
      \<or> session_status s = JStr ''cancelled'')"

text \<open>
  A library for examples: a time is written in decimal digits, and only a string of
  digits is read back as a time.
\<close>

definition toy_lib :: python_lib where
  "toy_lib =
     \<lparr>isoformat = str_of_nat,
      fromisoformat = (\<lambda>s. if s \<noteq> [] \<and> list_all is_digit s then Some (nat_of_digits s) else None),
      format_value = (\<lambda>v. ''?'')\<rparr>"


subsection \<open>Loading malformed session files\<close>

lemma store_load_not_json:
  "dict_get (JStr sid) (cache st) = None \<Longrightarrow> dict_get sid (disk st) = Some NotJson
     \<Longrightarrow> store_load L sid st = (Inr None, st)"
  by (simp add: store_load_def)

lemma store_load_missing_session_id:
  "dict_get (JStr sid) (cache st) = None \<Longrightarrow> dict_get sid (disk st) = Some (Json (JObj d))
     \<Longrightarrow> dict_get ''session_id'' d = None
     \<Longrightarrow> store_load L sid st = (Inr None, st)"
  by (simp add: store_load_def from_dict_def subscript_def)

lemma repr_not_a_date: "repr_str ''not-a-date'' = quote @ ''not-a-date'' @ quote"
  by code_simp

text \<open>
  Claim C9 on the code. A session file that is valid JSON with the required keys, but whose
  \<^verbatim>\<open>created_at\<close> is a string \<^verbatim>\<open>datetime.fromisoformat\<close> rejects, makes \<^verbatim>\<open>SessionStore.load\<close> raise
  \<^verbatim>\<open>ValueError\<close>: the \<^verbatim>\<open>except\<close> clause names \<^verbatim>\<open>json.JSONDecodeError\<close> and \<^verbatim>\<open>KeyError\<close> only. The
  same holds for a timestamp that is not a string (\<^verbatim>\<open>TypeError\<close>).
\<close>

theorem load_unparseable_timestamp_raises:
  assumes "fromisoformat L ''not-a-date'' = None"
  shows "store_load L ''s1''
           \<lparr>heap = [],
            disk = [(''s1'', Json (JObj [(''session_id'', JStr ''s1''),
                                          (''created_at'', JStr ''not-a-date'')]))],
            cache = [], active_sessions = []\<rparr>
         = (Inl (ValueError (''Invalid isoformat string: '' @ quote @ ''not-a-date'' @ quote)),
            \<lparr>heap = [],
             disk = [(''s1'', Json (JObj [(''session_id'', JStr ''s1''),
                                           (''created_at'', JStr ''not-a-date'')]))],
             cache = [], active_sessions = []\<rparr>)
       \<and> fst (store_load L ''s1''
           \<lparr>heap = [],
            disk = [(''s1'', Json (JObj [(''session_id'', JStr ''s1''),
                                          (''created_at'', JNum 5)]))],
            cache = [], active_sessions = []\<rparr>) = Inl TypeError"
  using assms
  by (simp add: store_load_def from_dict_def subscript_def parse_datetime_def
      repr_not_a_date)

theorem load_unparseable_timestamp_raises_witness:
  "fromisoformat toy_lib ''not-a-date'' = None
   \<and> fst (store_load toy_lib ''s1''
           \<lparr>heap = [],
            disk = [(''s1'', Json (JObj [(''session_id'', JStr ''s1''),
                                          (''created_at'', JStr ''not-a-date'')]))],
            cache = [], active_sessions = []\<rparr>)
       = Inl (ValueError (''Invalid isoformat string: '' @ quote @ ''not-a-date'' @ quote))"
proof -
  have h: "fromisoformat toy_lib ''not-a-date'' = None"
    by (simp add: toy_lib_def is_digit_def)
  show ?thesis
    using h load_unparseable_timestamp_raises [OF h] by simp
qed

subsection \<open>Operations on a terminal session\<close>

text \<open>
  The session \<open>sid\<close> is terminal and stored: its object is at address \<open>r\<close>, in the cache, not
  active or active at the same address, and its file holds its record.
\<close>

definition stored_terminal :: "python_lib \<Rightarrow> orchestrator \<Rightarrow> string \<Rightarrow> nat \<Rightarrow> bool" where
  "stored_terminal L st sid r =
     (r < length (heap st)
      \<and> dict_get (JStr sid) (cache st) = Some r
      \<and> (dict_get sid (active_sessions st) = None \<or> dict_get sid (active_sessions st) = Some r)
      \<and> session_id (heap st ! r) = JStr sid
      \<and> terminal (heap st ! r)
      \<and> dict_get sid (disk st) = Some (Json (to_dict L (heap st ! r))))"

lemma find_session_stored:
  "stored_terminal L st sid r \<Longrightarrow> find_session L sid st = (Inr (Some r), st)"
  by (auto simp add: stored_terminal_def find_session_def store_load_def)

lemma store_load_stored:
  "stored_terminal L st sid r \<Longrightarrow> store_load L sid st = (Inr (Some r), st)"
  by (simp add: stored_terminal_def store_load_def)

lemma store_save_str:
  "session_id (heap st ! r) = JStr sid \<Longrightarrow>
   store_save L r st =
     Inr (st\<lparr>disk := dict_set sid (Json (to_dict L (heap st ! r))) (disk st),
             cache := dict_set (JStr sid) r (cache st)\<rparr>)"
  by (simp add: store_save_def fmt_def hashable_def Let_def)

lemma to_dict_messages_neq:
  "length (messages s') \<noteq> length (messages s) \<Longrightarrow> to_dict L s' \<noteq> to_dict L s"
proof
  assume len: "length (messages s') \<noteq> length (messages s)" and eq: "to_dict L s' = to_dict L s"
  from eq have "map (message_to_dict L) (messages s') = map (message_to_dict L) (messages s)"
    by (simp add: to_dict_def)
  then have "length (messages s') = length (messages s)"
    by (rule map_eq_imp_length_eq)
  with len show False by simp
qed

lemma start_session_terminal:
  assumes "stored_terminal L st sid r"
  shows "start_session L clock sid st =
           (Inl (ValueError (''Session '' @ sid @ '' cannot be started (status: ''
                             @ fmt L (session_status (heap st ! r)) @ '')'')), st)"
  using assms store_load_stored [OF assms]
  by (auto simp add: start_session_def stored_terminal_def terminal_def)

lemma resume_session_terminal:
  assumes "stored_terminal L st sid r"
  shows "resume_session L clock sid st =
           (Inl (ValueError (''Session '' @ sid @ '' is not paused (status: ''
                             @ fmt L (session_status (heap st ! r)) @ '')'')), st)"
  using assms store_load_stored [OF assms]
  by (auto simp add: resume_session_def stored_terminal_def terminal_def)

text \<open>What an operation that changes the session by \<open>f\<close> and saves it leaves behind.\<close>

definition persisted_as ::
  "python_lib \<Rightarrow> orchestrator \<Rightarrow> string \<Rightarrow> nat \<Rightarrow> SessionData \<Rightarrow> bool" where
  "persisted_as L st' sid r s' =
     (heap st' ! r = s' \<and> dict_get sid (disk st') = Some (Json (to_dict L s')))"

lemma pause_session_terminal:
  assumes "stored_terminal L st sid r"
  shows "fst (pause_session L clock sid st) = Inr r
     \<and> persisted_as L (snd (pause_session L clock sid st)) sid r
         (add_message ''system'' ''Session paused'' None (clock 0)
            ((heap st ! r)\<lparr>session_status := JStr ''paused''\<rparr>))"
  using assms find_session_stored [OF assms]
  by (simp add: pause_session_def stored_terminal_def update_at_def store_save_str
      add_message_def persisted_as_def dict_get_dict_set Let_def)

lemma complete_session_terminal:
  assumes "stored_terminal L st sid r"
  shows "fst (complete_session L clock sid res nm na st) = Inr r
     \<and> persisted_as L (snd (complete_session L clock sid res nm na st)) sid r
         (add_message ''system'' (''Session completed: '' @ res)
            (Some (JObj [(''completed_at'', JStr (isoformat L (clock 0)))])) (clock 1)
            ((heap st ! r)\<lparr>completed_at := Some (clock 0),
                            session_status := JStr ''completed'',
                            session_phase := JStr ''completed'',
                            session_result := JStr res,
                            metrics := (case nm of None \<Rightarrow> metrics (heap st ! r) | Some m \<Rightarrow> m),
                            artifacts :=
                              (case na of
                                 None \<Rightarrow> artifacts (heap st ! r)
                               | Some a \<Rightarrow> (if truthy a then a else artifacts (heap st ! r)))\<rparr>))"
  using assms find_session_stored [OF assms]
  by (simp add: complete_session_def stored_terminal_def update_at_def store_save_str
      add_message_def persisted_as_def dict_get_dict_set Let_def)

lemma fail_session_terminal:
  assumes "stored_terminal L st sid r"
  shows "fst (fail_session L clock sid reason nm st) = Inr r
     \<and> persisted_as L (snd (fail_session L clock sid reason nm st)) sid r
         (add_message ''system'' (''Session failed: '' @ reason)
            (Some (JObj [(''completed_at'', JStr (isoformat L (clock 0)))])) (clock 1)
            ((heap st ! r)\<lparr>completed_at := Some (clock 0),
                            session_status := JStr ''failed'',
                            session_phase := JStr ''failed'',
                            session_result := JStr (''Failed: '' @ reason),
                            metrics := (case nm of None \<Rightarrow> metrics (heap st ! r) | Some m \<Rightarrow> m)\<rparr>))"
  using assms find_session_stored [OF assms]
  by (simp add: fail_session_def stored_terminal_def update_at_def store_save_str
      add_message_def persisted_as_def dict_get_dict_set Let_def)

lemma update_session_phase_terminal:
  assumes "stored_terminal L st sid r"
  shows "fst (update_session_phase L clock sid p msg st) = Inr ()
     \<and> persisted_as L (snd (update_session_phase L clock sid p msg st)) sid r
         (if truthy_str msg
          then add_message ''system'' (the msg) (Some (JObj [(''phase'', JStr p)])) (clock 0)
                 ((heap st ! r)\<lparr>session_phase := JStr p\<rparr>)
          else (heap st ! r)\<lparr>session_phase := JStr p\<rparr>)"
  using assms find_session_stored [OF assms]
  by (simp add: update_session_phase_def stored_terminal_def update_at_def store_save_str
      add_message_def persisted_as_def dict_get_dict_set Let_def)

lemma add_agent_message_terminal:
  assumes "stored_terminal L st sid r"
  shows "fst (add_agent_message L clock sid body md st) = Inr ()
     \<and> persisted_as L (snd (add_agent_message L clock sid body md st)) sid r
         (add_message ''assistant'' body md (clock 0) (heap st ! r))"
  using assms find_session_stored [OF assms]
  by (simp add: add_agent_message_def stored_terminal_def update_at_def store_save_str
      add_message_def persisted_as_def dict_get_dict_set Let_def)

lemma add_user_message_terminal:
  assumes "stored_terminal L st sid r"
  shows "fst (add_user_message L clock sid body md st) = Inr ()
     \<and> persisted_as L (snd (add_user_message L clock sid body md st)) sid r
         (add_message ''user'' body md (clock 0) (heap st ! r))"
  using assms find_session_stored [OF assms]
  by (simp add: add_user_message_def stored_terminal_def update_at_def store_save_str
      add_message_def persisted_as_def dict_get_dict_set Let_def)

lemma record_error_terminal:
  assumes "stored_terminal L st sid r" and "session_errors (heap st ! r) = JArr es"
  shows "fst (record_error L clock sid err st) = Inr ()
     \<and> persisted_as L (snd (record_error L clock sid err st)) sid r
         (let s1 = add_message ''system'' (''Error: '' @ error_message err)
                     (Some (JObj [(''severity'', JStr (ErrorSeverity_value (error_severity err)))]))
                     (clock 0)
                     ((heap st ! r)\<lparr>session_errors := JArr (es @ [AgentError_to_dict L err])\<rparr>)
          in if error_severity err = FATAL
             then s1\<lparr>session_status := JStr ''failed'', session_phase := JStr ''failed''\<rparr>
             else s1)"
  using assms find_session_stored [OF assms(1)]
  by (simp add: record_error_def stored_terminal_def update_at_def store_save_str
      add_message_def persisted_as_def dict_get_dict_set Let_def)


lemma persisted_changed:
  assumes "stored_terminal L st sid r" and "persisted_as L st' sid r s'"
    and "length (messages s') \<noteq> length (messages (heap st ! r))"
  shows "dict_get sid (disk st') \<noteq> dict_get sid (disk st)"
  using assms to_dict_messages_neq [of s' "heap st ! r" L]
  by (simp add: stored_terminal_def persisted_as_def)

text \<open>
  A session that was created, started and completed, with the example library; the clock
  of each call starts at a round number.
\<close>

definition completed_example :: orchestrator where
  "completed_example =
     snd (complete_session toy_lib (\<lambda>k. 300 + k) ''s1'' ''ok'' None None
       (snd (start_session toy_lib (\<lambda>k. 200 + k) ''s1''
         (snd (create_session toy_lib (\<lambda>k. 100 + k) ''s1'' ''do it'' JNull
           \<lparr>heap = [], disk = [], cache = [], active_sessions = []\<rparr>)))))"

lemma completed_example_stored: "stored_terminal toy_lib completed_example ''s1'' 0"
  by code_simp

lemma completed_example_status:
  "session_status (heap completed_example ! 0) = JStr ''completed''"
  by code_simp

text \<open>
  The claim that every mutating operation on a terminal session returns an error and
  leaves the stored record unchanged fails: pausing the completed session succeeds, sets
  its status to \<^verbatim>\<open>paused\<close> and rewrites its file, and an assistant message is appended to it
  and written as well.
\<close>

theorem terminal_not_absorbing_counterexample:
  "session_status (heap completed_example ! 0) = JStr ''completed''
   \<and> fst (pause_session toy_lib (\<lambda>k. 400 + k) ''s1'' completed_example) = Inr 0
   \<and> session_status
        (heap (snd (pause_session toy_lib (\<lambda>k. 400 + k) ''s1'' completed_example)) ! 0)
       = JStr ''paused''
   \<and> dict_get ''s1'' (disk (snd (pause_session toy_lib (\<lambda>k. 400 + k) ''s1'' completed_example)))
       \<noteq> dict_get ''s1'' (disk completed_example)
   \<and> fst (add_agent_message toy_lib (\<lambda>k. 400 + k) ''s1'' ''hello'' None completed_example)
       = Inr ()
   \<and> dict_get ''s1''
        (disk (snd (add_agent_message toy_lib (\<lambda>k. 400 + k) ''s1'' ''hello'' None
                      completed_example)))
       \<noteq> dict_get ''s1'' (disk completed_example)"
proof -
  note h = completed_example_stored
  note p = pause_session_terminal [OF h, of "\<lambda>k. 400 + k"]
  note m = add_agent_message_terminal [OF h, of "\<lambda>k. 400 + k" "''hello''" None]
  have p1: "session_status
        (heap (snd (pause_session toy_lib (\<lambda>k. 400 + k) ''s1'' completed_example)) ! 0)
       = JStr ''paused''"
    using conjunct2 [OF p] by (simp add: persisted_as_def add_message_def)
  have p2: "dict_get ''s1'' (disk (snd (pause_session toy_lib (\<lambda>k. 400 + k) ''s1'' completed_example)))
       \<noteq> dict_get ''s1'' (disk completed_example)"
    by (rule persisted_changed [OF h conjunct2 [OF p]]) (simp add: add_message_def)
  have m2: "dict_get ''s1''
        (disk (snd (add_agent_message toy_lib (\<lambda>k. 400 + k) ''s1'' ''hello'' None
                      completed_example)))
       \<noteq> dict_get ''s1'' (disk completed_example)"
    by (rule persisted_changed [OF h conjunct2 [OF m]]) (simp add: add_message_def)
  show ?thesis
    using completed_example_status conjunct1 [OF p] p1 p2 conjunct1 [OF m] m2 by simp
qed

text \<open>
  Claim C1, as the code has it. On a stored terminal session only \<^verbatim>\<open>start_session\<close> and
  \<^verbatim>\<open>resume_session\<close> raise an error and leave the state, the file included, as it was: they
  test the status. \<^verbatim>\<open>pause_session\<close>, \<^verbatim>\<open>complete_session\<close>, \<^verbatim>\<open>fail_session\<close>,
  \<^verbatim>\<open>update_session_phase\<close>, \<^verbatim>\<open>add_agent_message\<close>, \<^verbatim>\<open>add_user_message\<close> and \<^verbatim>\<open>record_error\<close> do
  not: each returns normally, changes the session and writes the changed record to the
  file (for \<^verbatim>\<open>record_error\<close>, when the stored errors are a list).
\<close>

theorem terminal_session_operations:
  assumes "stored_terminal L st sid r"
  shows "start_session L clock sid st =
           (Inl (ValueError (''Session '' @ sid @ '' cannot be started (status: ''
                             @ fmt L (session_status (heap st ! r)) @ '')'')), st)
     \<and> resume_session L clock sid st =
           (Inl (ValueError (''Session '' @ sid @ '' is not paused (status: ''
                             @ fmt L (session_status (heap st ! r)) @ '')'')), st)
     \<and> fst (pause_session L clock sid st) = Inr r
     \<and> session_status (heap (snd (pause_session L clock sid st)) ! r) = JStr ''paused''
     \<and> dict_get sid (disk (snd (pause_session L clock sid st))) \<noteq> dict_get sid (disk st)
     \<and> fst (complete_session L clock sid res nm na st) = Inr r
     \<and> dict_get sid (disk (snd (complete_session L clock sid res nm na st)))
          \<noteq> dict_get sid (disk st)
     \<and> fst (fail_session L clock sid reason nm st) = Inr r
     \<and> dict_get sid (disk (snd (fail_session L clock sid reason nm st)))
          \<noteq> dict_get sid (disk st)
     \<and> fst (update_session_phase L clock sid p msg st) = Inr ()
     \<and> dict_get sid (disk (snd (update_session_phase L clock sid p msg st)))
          = Some (Json (to_dict L (heap (snd (update_session_phase L clock sid p msg st)) ! r)))
     \<and> session_phase (heap (snd (update_session_phase L clock sid p msg st)) ! r) = JStr p
     \<and> fst (add_agent_message L clock sid body md st) = Inr ()
     \<and> dict_get sid (disk (snd (add_agent_message L clock sid body md st)))
          \<noteq> dict_get sid (disk st)
     \<and> fst (add_user_message L clock sid body md st) = Inr ()
     \<and> dict_get sid (disk (snd (add_user_message L clock sid body md st)))
          \<noteq> dict_get sid (disk st)
     \<and> ((\<exists>es. session_errors (heap st ! r) = JArr es) \<longrightarrow>
          fst (record_error L clock sid err st) = Inr ()
          \<and> dict_get sid (disk (snd (record_error L clock sid err st)))
               \<noteq> dict_get sid (disk st))"
proof -
  note a = assms
  have pause: "dict_get sid (disk (snd (pause_session L clock sid st))) \<noteq> dict_get sid (disk st)"
    by (rule persisted_changed [OF a conjunct2 [OF pause_session_terminal [OF a]]])
       (simp add: add_message_def)
  have pstat: "session_status (heap (snd (pause_session L clock sid st)) ! r) = JStr ''paused''"
    using conjunct2 [OF pause_session_terminal [OF a, of clock]]
    by (simp add: persisted_as_def add_message_def)
  have complete: "dict_get sid (disk (snd (complete_session L clock sid res nm na st)))
          \<noteq> dict_get sid (disk st)"
    by (rule persisted_changed [OF a conjunct2 [OF complete_session_terminal [OF a]]])
       (simp add: add_message_def)
  have fail: "dict_get sid (disk (snd (fail_session L clock sid reason nm st)))
          \<noteq> dict_get sid (disk st)"
    by (rule persisted_changed [OF a conjunct2 [OF fail_session_terminal [OF a]]])
       (simp add: add_message_def)
  have phase: "dict_get sid (disk (snd (update_session_phase L clock sid p msg st)))
          = Some (Json (to_dict L (heap (snd (update_session_phase L clock sid p msg st)) ! r)))"
    and phase2: "session_phase (heap (snd (update_session_phase L clock sid p msg st)) ! r) = JStr p"
    using conjunct2 [OF update_session_phase_terminal [OF a, of clock p msg]]
    by (simp_all add: persisted_as_def add_message_def)
  have agent: "dict_get sid (disk (snd (add_agent_message L clock sid body md st)))
          \<noteq> dict_get sid (disk st)"
    by (rule persisted_changed [OF a conjunct2 [OF add_agent_message_terminal [OF a]]])
       (simp add: add_message_def)
  have user: "dict_get sid (disk (snd (add_user_message L clock sid body md st)))
          \<noteq> dict_get sid (disk st)"
    by (rule persisted_changed [OF a conjunct2 [OF add_user_message_terminal [OF a]]])
       (simp add: add_message_def)
  have err: "(\<exists>es. session_errors (heap st ! r) = JArr es) \<longrightarrow>
          fst (record_error L clock sid err st) = Inr ()
          \<and> dict_get sid (disk (snd (record_error L clock sid err st)))
               \<noteq> dict_get sid (disk st)"
  proof
    assume "\<exists>es. session_errors (heap st ! r) = JArr es"
    then obtain es where es: "session_errors (heap st ! r) = JArr es" by blast
    have "dict_get sid (disk (snd (record_error L clock sid err st))) \<noteq> dict_get sid (disk st)"
      by (rule persisted_changed [OF a conjunct2 [OF record_error_terminal [OF a es]]])
         (simp add: add_message_def Let_def)
    with record_error_terminal [OF a es, of clock err]
    show "fst (record_error L clock sid err st) = Inr ()
          \<and> dict_get sid (disk (snd (record_error L clock sid err st)))
               \<noteq> dict_get sid (disk st)"
      by simp
  qed
  show ?thesis
    using start_session_terminal [OF a, of clock] resume_session_terminal [OF a, of clock]
      conjunct1 [OF pause_session_terminal [OF a, of clock]] pstat pause
      conjunct1 [OF complete_session_terminal [OF a, of clock res nm na]] complete
      conjunct1 [OF fail_session_terminal [OF a, of clock reason nm]] fail
      conjunct1 [OF update_session_phase_terminal [OF a, of clock p msg]] phase phase2
      conjunct1 [OF add_agent_message_terminal [OF a, of clock body md]] agent
      conjunct1 [OF add_user_message_terminal [OF a, of clock body md]] user
      err
    by blast
qed

theorem terminal_session_operations_witness:
  "stored_terminal toy_lib completed_example ''s1'' 0
   \<and> resume_session toy_lib (\<lambda>k. 400 + k) ''s1'' completed_example
       = (Inl (ValueError ''Session s1 is not paused (status: completed)''), completed_example)
   \<and> fst (pause_session toy_lib (\<lambda>k. 400 + k) ''s1'' completed_example) = Inr 0
   \<and> dict_get ''s1'' (disk (snd (pause_session toy_lib (\<lambda>k. 400 + k) ''s1'' completed_example)))
       \<noteq> dict_get ''s1'' (disk completed_example)"
proof -
  note h = completed_example_stored
  show ?thesis
    using h terminal_session_operations [OF h, of "\<lambda>k. 400 + k"]
    by (simp add: completed_example_status fmt_def)
qed

end
